theory Spec2Isabelle
  imports Main "HOL-Library.Log_Nat"
begin

section \<open>Values exchanged between the evaluators of \<^verbatim>\<open>sympy/core/evalf.py\<close>\<close>

text \<open>
  An mpf value tuple is a tuple of integers \<open>(sign, man, exp, bc)\<close>; a temporary result
  is a tuple \<open>(re, im, re_acc, im_acc)\<close> whose parts are mpf tuples or Python's
  \<^verbatim>\<open>None\<close> (an exact zero), and whose accuracies are integers or \<^verbatim>\<open>None\<close>.
\<close>

type_synonym mpf = "int \<times> int \<times> int \<times> int"

type_synonym tmp_result = "mpf option \<times> mpf option \<times> int option \<times> int option"

text \<open>
  \<^verbatim>\<open>INF = 1e1000\<close> and \<^verbatim>\<open>MINUS_INF = -1e1000\<close> are the two float infinities the
  module uses as placeholder magnitudes next to ordinary integers; \<open>PLUS_INF\<close> stands
  for \<^verbatim>\<open>INF\<close>, and \<open>NAN\<close> for the float that the difference of two equal infinities is.
  Comparisons are those of Python floats (every comparison with \<open>NAN\<close> is false), and
  \<^verbatim>\<open>max(a, b)\<close> is \<open>b\<close> when \<open>a < b\<close> and \<open>a\<close> otherwise.
\<close>

datatype eint = MINUS_INF | Fin int | PLUS_INF | NAN

fun eint_less :: "eint \<Rightarrow> eint \<Rightarrow> bool" where
  "eint_less NAN _ = False"
| "eint_less _ NAN = False"
| "eint_less MINUS_INF MINUS_INF = False"
| "eint_less MINUS_INF _ = True"
| "eint_less (Fin a) (Fin b) = (a < b)"
| "eint_less (Fin a) PLUS_INF = True"
| "eint_less _ _ = False"

fun eint_max :: "eint \<Rightarrow> eint \<Rightarrow> eint" where
  "eint_max a b = (if eint_less a b then b else a)"

text \<open>
  Modelled from the spec: the constants and the exact helpers of
  \<^verbatim>\<open>sympy.mpmath.lib\<close>, which is not among the sources: \<open>fzero\<close>, \<open>fone\<close>,
  \<open>fnone\<close>, \<open>bitcount\<close> (the bit length of a mantissa), \<open>fshift\<close> (multiplication by a
  power of two, without rounding) and \<open>fneg\<close> (the sign flipped, without rounding).
\<close>

definition fzero :: mpf where
  "fzero = (0, 0, 0, 0)"

definition fone :: mpf where
  "fone = (0, 1, 0, 1)"

definition fnone :: mpf where
  "fnone = (1, 1, 0, 1)"

definition bitcount :: "int \<Rightarrow> int" where
  "bitcount n = bitlen n"

fun fshift :: "mpf \<Rightarrow> int \<Rightarrow> mpf" where
  "fshift (sign, man, expn, bc) n = (if man = 0 then (sign, man, expn, bc) else (sign, man, expn + n, bc))"

fun fneg :: "mpf \<Rightarrow> mpf" where
  "fneg (sign, man, expn, bc) = (if man = 0 then (sign, man, expn, bc) else (1 - sign, man, expn, bc))"

text \<open>
  Modelled from the spec: \<open>normalize\<close> of \<^verbatim>\<open>sympy.mpmath.lib\<close> with the rounding mode
  \<open>round_nearest\<close>, which is not among the sources. A mantissa wider than \<open>prec\<close> bits
  is cut to \<open>prec\<close> bits, rounding to nearest with ties to even; trailing zero bits are
  then moved into the exponent, and a zero mantissa gives \<open>fzero\<close>.
\<close>

function trailing :: "int \<Rightarrow> nat" where
  "trailing m = (if m = 0 \<or> odd m then 0 else Suc (trailing (m div 2)))"
  by pat_completeness auto
termination
  by (relation "measure (\<lambda>m. nat \<bar>m\<bar>)") auto

definition round_nearest_shift :: "int \<Rightarrow> int \<Rightarrow> int" where
  "round_nearest_shift man n =
     (let t = man div 2 ^ nat (n - 1)
      in if odd t \<and> (odd (t div 2) \<or> man mod 2 ^ nat (n - 1) \<noteq> 0)
         then t div 2 + 1 else t div 2)"

definition normalize_mpf :: "int \<Rightarrow> int \<Rightarrow> int \<Rightarrow> int \<Rightarrow> int \<Rightarrow> mpf" where
  "normalize_mpf sign man expn bc prec =
     (if man = 0 then fzero
      else
        let n = bc - prec;
            man1 = (if n > 0 then round_nearest_shift man n else man);
            exp1 = (if n > 0 then expn + n else expn);
            bc1 = (if n > 0 then prec else bc);
            t = int (trailing man1);
            man2 = man1 div 2 ^ nat t
        in (sign, man2, exp1 + t, if man2 = 1 then 1 else bc1 - t))"

text \<open>
  Modelled from the spec: the number that an mpf tuple of \<^verbatim>\<open>sympy.mpmath.lib\<close> stands
  for, \<open>(-1) ^ sign * man * 2 ^ exp\<close>. It is used to state what the evaluators return,
  never by the evaluators.
\<close>

definition mpf_value :: "mpf \<Rightarrow> real" where
  "mpf_value x =
     (case x of (sign, man, expn, bc) \<Rightarrow>
        (if sign \<noteq> 0 then - 1 else 1) * real_of_int man * 2 powr real_of_int expn)"

section \<open>Helper functions for arithmetic and complex parts\<close>

text \<open>
  \<open>fastlog\<close>: Python's \<^verbatim>\<open>not x\<close> holds of \<^verbatim>\<open>None\<close> only (a tuple of four
  integers is true), so the test is \<open>x = None\<close> or \<open>x = fzero\<close>.
\<close>

fun fastlog :: "mpf option \<Rightarrow> eint" where
  "fastlog None = MINUS_INF"
| "fastlog (Some (sign, man, expn, bc)) =
     (if (sign, man, expn, bc) = fzero then MINUS_INF else Fin (expn + bc))"

section \<open>Arithmetic operations\<close>

text \<open>
  One pass of the loop of \<open>add_terms\<close> over a term \<open>(x, accuracy)\<close>, on the loop state
  \<open>(sum_man, sum_exp, absolute_error)\<close>. Python's \<^verbatim>\<open>m << d\<close> is \<open>m * 2 ^ d\<close> for
  \<open>d \<ge> 0\<close>, which is the only way the loop uses it.
\<close>

fun add_terms_step :: "int \<Rightarrow> int \<times> int \<times> eint \<Rightarrow> mpf option \<times> int \<Rightarrow> int \<times> int \<times> eint" where
  "add_terms_step prec (sum_man, sum_exp, absolute_error) (None, accuracy) =
     (sum_man, sum_exp, absolute_error)"
| "add_terms_step prec (sum_man, sum_exp, absolute_error) (Some (sign, man0, expn, bc), accuracy) =
     (let man = (if sign \<noteq> 0 then - man0 else man0);
          absolute_error' = eint_max absolute_error (Fin (bc + expn - accuracy));
          delta = expn - sum_exp
      in if expn \<ge> sum_exp then
           (if delta > 4 * prec then (man, expn, absolute_error')
            else (sum_man + man * 2 ^ nat delta, sum_exp, absolute_error'))
         else
           (if - delta > 4 * prec then (sum_man, sum_exp, absolute_error')
            else (sum_man * 2 ^ nat (- delta) + man, expn, absolute_error')))"

definition add_terms_loop :: "int \<Rightarrow> (mpf option \<times> int) list \<Rightarrow> int \<times> int \<times> eint" where
  "add_terms_loop prec terms = foldl (add_terms_step prec) (0, 0, MINUS_INF) terms"

text \<open>
  \<open>add_terms\<close>. In the one-term case the test \<^verbatim>\<open>not terms[0]\<close> is applied to the pair
  \<open>(x, accuracy)\<close>, which is never false in Python, so the term is returned as it is.
  After the loop \<open>absolute_error\<close> is \<open>MINUS_INF\<close> when no term was present and an
  integer otherwise.
\<close>

definition add_terms :: "(mpf option \<times> int) list \<Rightarrow> int \<Rightarrow> int \<Rightarrow> mpf option \<times> int option" where
  "add_terms terms prec target_prec =
     (case terms of
        [(x, accuracy)] \<Rightarrow> (x, Some accuracy)
      | _ \<Rightarrow>
        (case add_terms_loop prec terms of
           (sum_man, sum_exp, Fin absolute_error) \<Rightarrow>
             if sum_man = 0 then (Some (fshift fone absolute_error), Some (- 1))
             else
               let sum_sign = (if sum_man < 0 then 1 else 0);
                   sum_man' = (if sum_man < 0 then - sum_man else sum_man);
                   sum_bc = bitcount sum_man';
                   sum_accuracy = sum_exp + sum_bc - absolute_error
               in (Some (normalize_mpf sum_sign sum_man' sum_exp sum_bc target_prec), Some sum_accuracy)
         | (sum_man, sum_exp, _) \<Rightarrow> (None, None)))"

text \<open>
  The absolute errors \<open>bc + exp - accuracy\<close> of the terms that are present, in the order of
  the list: what the documentation of \<open>add_terms\<close> calls the term magnitude minus the
  term accuracy.
\<close>

definition term_errors :: "(mpf option \<times> int) list \<Rightarrow> int list" where
  "term_errors terms =
     map (\<lambda>(x, accuracy). case x of Some (sign, man, expn, bc) \<Rightarrow> bc + expn - accuracy | None \<Rightarrow> 0)
       (filter (\<lambda>(x, accuracy). x \<noteq> None) terms)"

text \<open>
  The exact sum of the terms that are present, and their exponents in the order of the
  list. \<open>terms_kept\<close> says that the exponents, together with the exponent 0 that the
  loop starts from, lie within \<open>4 * prec\<close> of each other, so that the loop takes
  neither of its two branches that drop the sum or the term as negligible.
\<close>

definition terms_sum :: "(mpf option \<times> int) list \<Rightarrow> real" where
  "terms_sum terms =
     sum_list (map (\<lambda>(x, accuracy). case x of Some v \<Rightarrow> mpf_value v | None \<Rightarrow> 0) terms)"

definition term_exponents :: "(mpf option \<times> int) list \<Rightarrow> int list" where
  "term_exponents terms =
     map (\<lambda>(x, accuracy). case x of Some (sign, man, expn, bc) \<Rightarrow> expn | None \<Rightarrow> 0)
       (filter (\<lambda>(x, accuracy). x \<noteq> None) terms)"

definition terms_kept :: "int \<Rightarrow> (mpf option \<times> int) list \<Rightarrow> bool" where
  "terms_kept prec terms =
     (\<forall>e \<in> set (term_exponents terms). \<forall>e' \<in> set (term_exponents terms).
        max e 0 - min e' 0 \<le> 4 * prec)"



section \<open>Errors, options, expressions\<close>

text \<open>
  The exceptions the module raises or meets. \<open>NonFinite\<close> is not a Python exception: it
  marks the places where the source would go on with a float infinity as a working
  precision, as an accuracy of a result or as an exponent, which the integer fields of the
  model cannot hold.
\<close>

datatype error = PrecisionExhausted | NotImplementedError | ValueError | TypeError | NonFinite

text \<open>
  A call either returns a value, raises, or does not return: \<open>None\<close> is a call that does
  not return.
\<close>

type_synonym 'a result = "(error + 'a) option"

definition ok :: "'a \<Rightarrow> 'a result" where
  "ok x = Some (Inr x)"

definition raise :: "error \<Rightarrow> 'a result" where
  "raise e = Some (Inl e)"

fun bind_r :: "'a result \<Rightarrow> ('a \<Rightarrow> 'b result) \<Rightarrow> 'b result" where
  "bind_r None f = None"
| "bind_r (Some (Inl e)) f = Some (Inl e)"
| "bind_r (Some (Inr x)) f = f x"

text \<open>
  The options dictionary, with the keys the evaluators read: \<open>maxprec\<close> (which may be
  missing), \<open>chop\<close> and \<open>strict\<close>. The key \<open>verbose\<close> only switches printing on.
\<close>

record options =
  maxprec :: "int option"
  chop :: bool
  strict :: bool

definition DEFAULT_MAXPREC :: int where
  "DEFAULT_MAXPREC = 333"

definition get_maxprec :: "options \<Rightarrow> int" where
  "get_maxprec options = (case maxprec options of None \<Rightarrow> DEFAULT_MAXPREC | Some m \<Rightarrow> m)"

text \<open>
  The expression nodes: the keys of \<open>evalf_table\<close>, without \<open>Symbol\<close>, \<open>log\<close>, \<open>abs\<close> and
  \<open>Integral\<close>. \<open>C_Integer\<close> and \<open>C_Rational\<close> are the instances that are none of the
  singletons \<open>Zero\<close>, \<open>One\<close>, \<open>NegativeOne\<close>, \<open>Half\<close>.
\<close>

datatype expr =
    C_Real mpf
  | C_Rational int int
  | C_Integer int
  | C_Zero
  | C_One
  | C_Half
  | C_Pi
  | C_Exp1
  | C_ImaginaryUnit
  | C_NegativeOne
  | C_exp expr
  | C_cos expr
  | C_sin expr
  | C_Add "expr list"
  | C_Mul "expr list"
  | C_Pow expr expr
  | C_atan expr
  | C_re expr
  | C_im expr
  | C_floor expr
  | C_ceiling expr

type_synonym evaluator = "expr \<Rightarrow> int \<Rightarrow> options \<Rightarrow> tmp_result result"

text \<open>
  The functions of mpmath that the evaluators call with a precision and read the result
  of. The rounding mode is \<open>round_nearest\<close> in every call.
\<close>

record backend =
  fpi :: "int \<Rightarrow> mpf"
  fe :: "int \<Rightarrow> mpf"
  fcos :: "mpf \<Rightarrow> int \<Rightarrow> mpf"
  fsin :: "mpf \<Rightarrow> int \<Rightarrow> mpf"
  fatan :: "mpf \<Rightarrow> int \<Rightarrow> mpf"
  fpowi :: "mpf \<Rightarrow> int \<Rightarrow> int \<Rightarrow> mpf"
  fpow :: "mpf \<Rightarrow> mpf \<Rightarrow> int \<Rightarrow> mpf"
  mpc_pow_int :: "mpf \<times> mpf \<Rightarrow> int \<Rightarrow> int \<Rightarrow> mpf \<times> mpf"
  mpc_pow_mpf :: "mpf \<times> mpf \<Rightarrow> mpf \<Rightarrow> int \<Rightarrow> mpf \<times> mpf"
  mpc_exp :: "mpf \<times> mpf \<Rightarrow> int \<Rightarrow> mpf \<times> mpf"

text \<open>
  Modelled from the spec: the exact helpers \<open>fhalf\<close>, \<open>fmul\<close>, \<open>from_int\<close>, \<open>to_int\<close>,
  \<open>fcmp\<close> against zero and \<open>from_rational\<close> of \<^verbatim>\<open>sympy.mpmath.lib\<close>, which is not among
  the sources. \<open>fmul\<close> rounds the exact product; \<open>from_int\<close> rounds the integer to \<open>prec\<close>
  bits, or keeps it exact when no precision is given; \<open>to_int\<close> rounds to the nearest
  integer, ties to even; \<open>from_rational\<close> rounds the quotient, found with guard bits and
  a sticky bit, to \<open>prec\<close> bits.
\<close>

definition fhalf :: mpf where
  "fhalf = (0, 1, - 1, 1)"

fun fmul :: "mpf \<Rightarrow> mpf \<Rightarrow> int \<Rightarrow> mpf" where
  "fmul (ssign, sman, sexp, sbc) (tsign, tman, texp, tbc) prec =
     normalize_mpf (if ssign = tsign then 0 else 1) (sman * tman) (sexp + texp)
       (bitcount (sman * tman)) prec"

definition from_int :: "int \<Rightarrow> int \<Rightarrow> mpf" where
  "from_int n prec = normalize_mpf (if n < 0 then 1 else 0) \<bar>n\<bar> 0 (bitcount \<bar>n\<bar>) prec"

definition from_int_exact :: "int \<Rightarrow> mpf" where
  "from_int_exact n = normalize_mpf (if n < 0 then 1 else 0) \<bar>n\<bar> 0 (bitcount \<bar>n\<bar>) (bitcount \<bar>n\<bar>)"

fun to_int :: "mpf \<Rightarrow> int" where
  "to_int (sign, man, expn, bc) =
     (let r = (if expn \<ge> 0 then man * 2 ^ nat expn else round_nearest_shift man (- expn))
      in if sign \<noteq> 0 then - r else r)"

fun fcmp_zero :: "mpf \<Rightarrow> int" where
  "fcmp_zero (sign, man, expn, bc) = (if man = 0 then 0 else if sign \<noteq> 0 then - 1 else 1)"

definition from_rational :: "int \<Rightarrow> int \<Rightarrow> int \<Rightarrow> mpf" where
  "from_rational p q prec =
     (let sign = (if p < 0 then 1 else 0);
          extra = max 5 (prec - bitcount \<bar>p\<bar> + bitcount q + 5);
          quot = (\<bar>p\<bar> * 2 ^ nat extra) div q;
          rem = (\<bar>p\<bar> * 2 ^ nat extra) mod q
      in if rem \<noteq> 0
         then normalize_mpf sign (2 * quot + 1) (- extra - 1) (bitcount (2 * quot + 1)) prec
         else normalize_mpf sign quot (- extra) (bitcount quot) prec)"

section \<open>Helper functions, continued\<close>

fun eint_le :: "eint \<Rightarrow> eint \<Rightarrow> bool" where
  "eint_le a b = (eint_less a b \<or> (a = b \<and> a \<noteq> NAN))"

fun eint_sub :: "eint \<Rightarrow> eint \<Rightarrow> eint" where
  "eint_sub (Fin a) (Fin b) = Fin (a - b)"
| "eint_sub NAN _ = NAN"
| "eint_sub _ NAN = NAN"
| "eint_sub MINUS_INF MINUS_INF = NAN"
| "eint_sub PLUS_INF PLUS_INF = NAN"
| "eint_sub MINUS_INF _ = MINUS_INF"
| "eint_sub PLUS_INF _ = PLUS_INF"
| "eint_sub (Fin a) MINUS_INF = PLUS_INF"
| "eint_sub (Fin a) PLUS_INF = MINUS_INF"

fun eint_neg :: "eint \<Rightarrow> eint" where
  "eint_neg (Fin a) = Fin (- a)"
| "eint_neg MINUS_INF = PLUS_INF"
| "eint_neg PLUS_INF = MINUS_INF"
| "eint_neg NAN = NAN"

text \<open>
  \<open>complex_accuracy\<close>. The result is an accuracy taken from the tuple as it is (an integer
  or \<^verbatim>\<open>None\<close>), \<open>INF\<close>, or the float or integer the last branch computes; there an
  accuracy that is \<^verbatim>\<open>None\<close> makes the subtraction raise.
\<close>

fun complex_accuracy :: "tmp_result \<Rightarrow> error + eint option" where
  "complex_accuracy (re, im, re_acc, im_acc) =
     (if im = None then
        (if re = None then Inr (Some PLUS_INF) else Inr (map_option Fin re_acc))
      else if re = None then Inr (map_option Fin im_acc)
      else
        (case (re_acc, im_acc) of
           (Some ra, Some ia) \<Rightarrow>
             let re_size = fastlog re;
                 im_size = fastlog im;
                 absolute_error = eint_max (eint_sub re_size (Fin ra)) (eint_sub im_size (Fin ia));
                 relative_error = eint_sub absolute_error (eint_max re_size im_size)
             in Inr (Some (eint_neg relative_error))
         | _ \<Rightarrow> Inl TypeError))"

text \<open>
  \<open>check_target\<close>. Python 2 orders \<^verbatim>\<open>None\<close> below every number, so an accuracy that is
  \<^verbatim>\<open>None\<close> is below \<open>prec\<close>.
\<close>

fun check_target :: "tmp_result \<Rightarrow> int \<Rightarrow> error + unit" where
  "check_target result prec =
     (case complex_accuracy result of
        Inl e \<Rightarrow> Inl e
      | Inr None \<Rightarrow> Inl PrecisionExhausted
      | Inr (Some a) \<Rightarrow> if eint_less a (Fin prec) then Inl PrecisionExhausted else Inr ())"

text \<open>\<open>res[no::2]\<close>, unpacked into two names, for \<open>no = 0\<close> and \<open>no = 1\<close>.\<close>

fun select_part :: "int \<Rightarrow> tmp_result \<Rightarrow> error + (mpf option \<times> int option)" where
  "select_part no (re, im, re_acc, im_acc) =
     (if no = 0 then Inr (re, re_acc) else if no = 1 then Inr (im, im_acc) else Inl ValueError)"

fun py_ge :: "int option \<Rightarrow> int \<Rightarrow> bool" where
  "py_ge None prec = False"
| "py_ge (Some a) prec = (a \<ge> prec)"

partial_function (option) get_complex_part_loop ::
  "evaluator \<Rightarrow> expr \<Rightarrow> int \<Rightarrow> int \<Rightarrow> options \<Rightarrow> int \<Rightarrow> nat \<Rightarrow> tmp_result result" where
  "get_complex_part_loop ev expr no prec options workprec i =
     (case ev expr workprec options of
        None \<Rightarrow> None
      | Some (Inl e) \<Rightarrow> Some (Inl e)
      | Some (Inr res) \<Rightarrow>
          (case select_part no res of
             Inl e \<Rightarrow> Some (Inl e)
           | Inr (v, accuracy) \<Rightarrow>
               if v = None \<or> py_ge accuracy prec then Some (Inr (v, None, accuracy, None))
               else get_complex_part_loop ev expr no prec options (workprec + max 30 (2 ^ i)) (i + 1)))"

definition get_complex_part :: "evaluator \<Rightarrow> expr \<Rightarrow> int \<Rightarrow> int \<Rightarrow> options \<Rightarrow> tmp_result result" where
  "get_complex_part ev expr no prec options = get_complex_part_loop ev expr no prec options prec 0"

definition evalf_re :: "evaluator \<Rightarrow> expr \<Rightarrow> int \<Rightarrow> options \<Rightarrow> tmp_result result" where
  "evalf_re ev arg prec options = get_complex_part ev arg 0 prec options"

definition evalf_im :: "evaluator \<Rightarrow> expr \<Rightarrow> int \<Rightarrow> options \<Rightarrow> tmp_result result" where
  "evalf_im ev arg prec options = get_complex_part ev arg 1 prec options"

text \<open>
  \<open>finalize_complex\<close>, on two tuples. \<open>mpf_size x\<close> is what \<open>fastlog\<close> gives for a tuple
  other than \<open>fzero\<close>, which is the only way the function uses its sizes.
\<close>

fun mpf_size :: "mpf \<Rightarrow> int" where
  "mpf_size (sign, man, expn, bc) = expn + bc"

definition finalize_complex :: "mpf \<Rightarrow> mpf \<Rightarrow> int \<Rightarrow> error + tmp_result" where
  "finalize_complex re im prec =
     (if re = fzero \<and> im = fzero then Inl ValueError
      else
        let re' = (if re = fzero then fshift fone (mpf_size im - prec) else re);
            im' = (if re = fzero then im
                   else if im = fzero then fshift fone (mpf_size re - prec) else im);
            size_re = mpf_size re';
            size_im = mpf_size im'
        in if size_re > size_im
           then Inr (Some re', Some im', Some prec, Some (prec + min (- (size_re - size_im)) 0))
           else Inr (Some re', Some im', Some (prec + min (- (size_im - size_re)) 0), Some prec))"

text \<open>
  \<open>chop_parts\<close>. In method 2 an accuracy that is \<^verbatim>\<open>None\<close> is below 2 for Python 2, and
  the subtraction that follows raises.
\<close>

definition chop_parts :: "tmp_result \<Rightarrow> int \<Rightarrow> error + tmp_result" where
  "chop_parts r prec =
     (case r of (re0, im0, re_acc0, im_acc0) \<Rightarrow>
        let chop_re = (re0 \<noteq> None \<and> eint_less (fastlog re0) (Fin (- prec + 4)));
            re = (if chop_re then None else re0);
            re_acc = (if chop_re then None else re_acc0);
            chop_im = (im0 \<noteq> None \<and> eint_less (fastlog im0) (Fin (- prec + 4)));
            im = (if chop_im then None else im0);
            im_acc = (if chop_im then None else im_acc0)
        in if re \<noteq> None \<and> im \<noteq> None then
             (let delta = eint_sub (fastlog re) (fastlog im)
              in case re_acc of
                   None \<Rightarrow> Inl TypeError
                 | Some ra \<Rightarrow>
                     let chop_re2 = (ra < 2 \<and> eint_le (eint_sub delta (Fin ra)) (Fin (- prec + 4)));
                         re2 = (if chop_re2 then None else re);
                         re_acc2 = (if chop_re2 then None else re_acc)
                     in (case im_acc of
                           None \<Rightarrow> Inl TypeError
                         | Some ia \<Rightarrow>
                             if ia < 2 \<and> eint_le (Fin (prec - 4)) (eint_sub delta (Fin ia))
                             then Inr (re2, None, re_acc2, None)
                             else Inr (re2, im, re_acc2, im_acc)))
           else Inr (re, im, re_acc, im_acc))"

section \<open>Arithmetic operations, continued\<close>

text \<open>
  \<open>[evalf(arg, prec, options) for arg in args]\<close>: the first call that raises or does not
  return ends the list.
\<close>

fun evalf_args :: "evaluator \<Rightarrow> expr list \<Rightarrow> int \<Rightarrow> options \<Rightarrow> tmp_result list result" where
  "evalf_args ev [] prec options = ok []"
| "evalf_args ev (arg # args) prec options =
     bind_r (ev arg prec options) (\<lambda>r.
       bind_r (evalf_args ev args prec options) (\<lambda>rs. ok (r # rs)))"

text \<open>
  \<open>[(a[0], a[2]) for a in terms if a[0]]\<close> and \<open>[(a[1], a[3]) for a in terms if a[1]]\<close>.
  Every term that is kept is a tuple, true for Python. A kept term whose accuracy is
  \<^verbatim>\<open>None\<close> makes \<open>evalf_add\<close> raise \<open>TypeError\<close>, in \<open>add_terms\<close>, in
  \<open>complex_accuracy\<close> or at \<open>target_prec - accuracy\<close>; the model raises it here.
\<close>

fun re_terms :: "tmp_result list \<Rightarrow> error + (mpf option \<times> int) list" where
  "re_terms [] = Inr []"
| "re_terms ((re, im, re_acc, im_acc) # ts) =
     (case re of
        None \<Rightarrow> re_terms ts
      | Some v \<Rightarrow>
          (case re_acc of
             None \<Rightarrow> Inl TypeError
           | Some a \<Rightarrow> (case re_terms ts of Inl e \<Rightarrow> Inl e | Inr r \<Rightarrow> Inr ((Some v, a) # r))))"

fun im_terms :: "tmp_result list \<Rightarrow> error + (mpf option \<times> int) list" where
  "im_terms [] = Inr []"
| "im_terms ((re, im, re_acc, im_acc) # ts) =
     (case im of
        None \<Rightarrow> im_terms ts
      | Some v \<Rightarrow>
          (case im_acc of
             None \<Rightarrow> Inl TypeError
           | Some a \<Rightarrow> (case im_terms ts of Inl e \<Rightarrow> Inl e | Inr r \<Rightarrow> Inr ((Some v, a) # r))))"

text \<open>
  One pass of the loop of \<open>evalf_add\<close>, up to the decision: the sum at the working precision
  \<open>prec\<close>, with its accuracy. The options the terms are evaluated with carry the lowered
  ceiling \<open>min(oldmaxprec, 2*prec)\<close>, which the source stores before the loop and at the end
  of every pass.
\<close>

definition evalf_add_pass ::
  "evaluator \<Rightarrow> expr list \<Rightarrow> int \<Rightarrow> int \<Rightarrow> options \<Rightarrow> int \<Rightarrow> (tmp_result \<times> eint option) result" where
  "evalf_add_pass ev args target_prec oldmaxprec options prec =
     bind_r (evalf_args ev args (prec + 10) (options\<lparr>maxprec := Some (min oldmaxprec (2 * prec))\<rparr>))
       (\<lambda>terms.
          case re_terms terms of
            Inl e \<Rightarrow> raise e
          | Inr rts \<Rightarrow>
              (case im_terms terms of
                 Inl e \<Rightarrow> raise e
               | Inr its \<Rightarrow>
                   (case (add_terms rts prec target_prec, add_terms its prec target_prec) of
                      ((re, re_accuracy), (im, im_accuracy)) \<Rightarrow>
                        (case complex_accuracy (re, im, re_accuracy, im_accuracy) of
                           Inl e \<Rightarrow> raise e
                         | Inr accuracy \<Rightarrow> ok ((re, im, re_accuracy, im_accuracy), accuracy)))))"

text \<open>
  The loop of \<open>evalf_add\<close> on the state \<open>(prec, i)\<close>. The pass is accepted when
  \<open>accuracy >= target_prec\<close>; otherwise the sum is returned as it is when
  \<open>prec - target_prec\<close> is above the lowered ceiling, and else the precision grows by
  \<open>max(10 + 2**i, target_prec - accuracy)\<close>.
\<close>

fun eint_ge_int :: "eint option \<Rightarrow> int \<Rightarrow> bool" where
  "eint_ge_int None t = False"
| "eint_ge_int (Some a) t = eint_le (Fin t) a"

fun add_step_size :: "eint option \<Rightarrow> int \<Rightarrow> nat \<Rightarrow> error + int" where
  "add_step_size None target_prec i = Inl TypeError"
| "add_step_size (Some accuracy) target_prec i =
     (case eint_max (Fin (10 + 2 ^ i)) (eint_sub (Fin target_prec) accuracy) of
        Fin d \<Rightarrow> Inr d
      | _ \<Rightarrow> Inl NonFinite)"

partial_function (option) evalf_add_loop ::
  "evaluator \<Rightarrow> expr list \<Rightarrow> int \<Rightarrow> int \<Rightarrow> options \<Rightarrow> int \<Rightarrow> nat \<Rightarrow> tmp_result result" where
  "evalf_add_loop ev args target_prec oldmaxprec options prec i =
     (case evalf_add_pass ev args target_prec oldmaxprec options prec of
        None \<Rightarrow> None
      | Some (Inl e) \<Rightarrow> Some (Inl e)
      | Some (Inr (r, accuracy)) \<Rightarrow>
          if eint_ge_int accuracy target_prec then Some (Inr r)
          else if prec - target_prec > min oldmaxprec (2 * prec) then Some (Inr r)
          else
            (case add_step_size accuracy target_prec i of
               Inl e \<Rightarrow> Some (Inl e)
             | Inr d \<Rightarrow> evalf_add_loop ev args target_prec oldmaxprec options (prec + d) (i + 1)))"

definition evalf_add :: "evaluator \<Rightarrow> expr list \<Rightarrow> int \<Rightarrow> options \<Rightarrow> tmp_result result" where
  "evalf_add ev args prec options =
     evalf_add_loop ev args prec (get_maxprec options) options prec 0"

text \<open>
  \<open>cmul\<close>, the helper for complex multiplication, on four values with their accuracies.
  The last term of the second list is \<open>(D, Cacc)\<close>, as the source has it.
\<close>

definition cmul ::
  "mpf \<times> int \<Rightarrow> mpf \<times> int \<Rightarrow> mpf \<times> int \<Rightarrow> mpf \<times> int \<Rightarrow> int \<Rightarrow> int
     \<Rightarrow> mpf option \<times> mpf option \<times> int option \<times> int option" where
  "cmul x y z w prec target_prec =
     (case (x, y, z, w) of ((a, a_acc), (b, b_acc), (c, c_acc), (d, d_acc)) \<Rightarrow>
        let A = fmul a c prec; Aacc = min a_acc c_acc;
            B = fmul (fneg b) d prec; Bacc = min b_acc d_acc;
            C = fmul a d prec; Cacc = min a_acc d_acc;
            D = fmul b c prec; Dacc = min b_acc c_acc;
            re_sum = add_terms [(Some A, Aacc), (Some B, Bacc)] prec target_prec;
            im_sum = add_terms [(Some C, Cacc), (Some D, Cacc)] prec target_prec
        in (fst re_sum, fst im_sum, snd re_sum, snd im_sum))"

text \<open>
  The first loop of \<open>evalf_mul\<close>, on the state \<open>(direction, man, exp, bc, acc,
  complex_factors)\<close>; the inner \<open>None\<close> is the early return of an exact zero.
  \<^verbatim>\<open>min(acc, a)\<close> is Python 2's \<open>min\<close>, for which \<^verbatim>\<open>None\<close> is below every number, and
  \<^verbatim>\<open>man >>= prec\<close> raises for a negative \<open>prec\<close>.
\<close>

fun py_min :: "int option \<Rightarrow> int option \<Rightarrow> int option" where
  "py_min (Some a) (Some b) = Some (min a b)"
| "py_min _ _ = None"

type_synonym mul_state = "int \<times> int \<times> int \<times> int \<times> int option \<times> tmp_result list"

fun mul_scalar :: "mul_state \<Rightarrow> mpf \<Rightarrow> int option \<Rightarrow> int \<Rightarrow> int \<Rightarrow> error + mul_state" where
  "mul_scalar (direction, man, expn, bc, acc, complex_factors) (s, m, e, b) a turn prec =
     (if bc + b > 3 * prec \<and> prec < 0 then Inl ValueError
      else Inr (direction + turn + 2 * s,
                (if bc + b > 3 * prec then (man * m) div 2 ^ nat prec else man * m),
                (if bc + b > 3 * prec then expn + e + prec else expn + e),
                bc + b, py_min acc a, complex_factors))"

fun evalf_mul_factors ::
  "evaluator \<Rightarrow> expr list \<Rightarrow> int \<Rightarrow> options \<Rightarrow> mul_state \<Rightarrow> mul_state option result" where
  "evalf_mul_factors ev [] prec options st = ok (Some st)"
| "evalf_mul_factors ev (arg # args) prec options (direction, man, expn, bc, acc, complex_factors) =
     bind_r (ev arg prec options) (\<lambda>(re, im, a, aim).
       case (re, im) of
         (Some r, Some i) \<Rightarrow>
           evalf_mul_factors ev args prec options
             (direction, man, expn, bc, acc, complex_factors @ [(re, im, a, aim)])
       | (Some r, None) \<Rightarrow>
           (case mul_scalar (direction, man, expn, bc, acc, complex_factors) r a 0 prec of
              Inl e \<Rightarrow> raise e
            | Inr st \<Rightarrow> evalf_mul_factors ev args prec options st)
       | (None, Some i) \<Rightarrow>
           (case mul_scalar (direction, man, expn, bc, acc, complex_factors) i aim 1 prec of
              Inl e \<Rightarrow> raise e
            | Inr st \<Rightarrow> evalf_mul_factors ev args prec options st)
       | (None, None) \<Rightarrow> ok None)"

text \<open>
  The accumulation of the complex factors of \<open>evalf_mul\<close> with \<open>cmul\<close>. A part that is
  \<^verbatim>\<open>None\<close>, or an accuracy that is \<^verbatim>\<open>None\<close>, makes \<open>fmul\<close> or \<open>add_terms\<close> raise.
\<close>

fun evalf_mul_complex :: "tmp_result \<Rightarrow> tmp_result list \<Rightarrow> int \<Rightarrow> int \<Rightarrow> error + tmp_result" where
  "evalf_mul_complex r [] prec target_prec = Inr r"
| "evalf_mul_complex (re, im, re_acc, im_acc) ((wre, wim, wre_acc, wim_acc) # ws) prec target_prec =
     (case (re, im, wre, wim, re_acc, im_acc, wre_acc, wim_acc) of
        (Some a, Some b, Some c, Some d, Some a_acc, Some b_acc, Some c_acc, Some d_acc) \<Rightarrow>
          evalf_mul_complex (cmul (a, a_acc) (b, b_acc) (c, c_acc) (d, d_acc) prec target_prec)
            ws prec target_prec
      | _ \<Rightarrow> Inl TypeError)"

definition evalf_mul :: "evaluator \<Rightarrow> expr list \<Rightarrow> int \<Rightarrow> options \<Rightarrow> tmp_result result" where
  "evalf_mul ev args target_prec options =
     (let prec = target_prec + int (length args) + 5
      in bind_r (evalf_mul_factors ev args prec options (0, 1, 0, 1, Some target_prec, []))
           (\<lambda>st. case st of
              None \<Rightarrow> ok (None, None, None, None)
            | Some (direction, man, expn, bc, acc, complex_factors) \<Rightarrow>
                let sign = (direction div 2) mod 2;
                    v = normalize_mpf sign man expn (bitcount man) prec
                in (case complex_factors of
                      [] \<Rightarrow> if direction mod 2 \<noteq> 0 then ok (None, Some v, None, acc)
                            else ok (Some v, None, acc, None)
                    | (re0, im0, re_acc0, im_acc0) # ws \<Rightarrow>
                        (case (re0, im0) of
                           (Some re1, Some im1) \<Rightarrow>
                             (case evalf_mul_complex
                                     (Some (fmul re1 v prec), Some (fmul im1 v prec),
                                      py_min re_acc0 acc, py_min im_acc0 acc) ws prec target_prec of
                                Inl e \<Rightarrow> raise e
                              | Inr (re, im, re_acc, im_acc) \<Rightarrow>
                                  if direction mod 2 \<noteq> 0 then
                                    (case im of
                                       None \<Rightarrow> raise TypeError
                                     | Some i \<Rightarrow> ok (Some (fneg i), re, re_acc, im_acc))
                                  else ok (re, im, re_acc, im_acc))
                         | _ \<Rightarrow> raise TypeError))))"

text \<open>
  \<open>evalf_pow\<close>. \<open>integer_value\<close> is \<open>exp.is_Integer\<close> together with \<open>exp.p\<close>, the singletons
  being instances of \<open>Integer\<close>. \<^verbatim>\<open>int(math.log(abs(p), 2))\<close> is taken as the exact
  \<open>\<lfloor>log2 |p|\<rfloor>\<close>, one less than the bit length of \<open>|p|\<close>.
\<close>

fun integer_value :: "expr \<Rightarrow> int option" where
  "integer_value (C_Integer n) = Some n"
| "integer_value C_Zero = Some 0"
| "integer_value C_One = Some 1"
| "integer_value C_NegativeOne = Some (- 1)"
| "integer_value _ = None"

fun or_fzero :: "mpf option \<Rightarrow> mpf" where
  "or_fzero None = fzero"
| "or_fzero (Some x) = x"

definition lift :: "error + 'a \<Rightarrow> 'a result" where
  "lift r = Some r"

definition evalf_pow_int ::
  "backend \<Rightarrow> evaluator \<Rightarrow> expr \<Rightarrow> int \<Rightarrow> int \<Rightarrow> options \<Rightarrow> tmp_result result" where
  "evalf_pow_int B ev base p target_prec options =
     (if p = 0 then ok (Some fone, None, Some target_prec, None)
      else
        let prec = target_prec + (bitcount \<bar>p\<bar> - 1)
        in bind_r (ev base (prec + 5) options) (\<lambda>(re, im, re_acc, im_acc).
             case (re, im) of
               (Some r, None) \<Rightarrow> ok (Some (fpowi B r p target_prec), None, Some target_prec, None)
             | (None, Some m) \<Rightarrow>
                 let z = fpowi B m p target_prec; c = p mod 4
                 in if c = 0 then ok (Some z, None, Some target_prec, None)
                    else if c = 1 then ok (None, Some z, None, Some target_prec)
                    else if c = 2 then ok (Some (fneg z), None, Some target_prec, None)
                    else ok (None, Some (fneg z), None, Some target_prec)
             | (Some r, Some m) \<Rightarrow>
                 (case mpc_pow_int B (r, m) p prec of
                    (re', im') \<Rightarrow> lift (finalize_complex re' im' target_prec))
             | (None, None) \<Rightarrow> raise TypeError))"

definition evalf_pow_real ::
  "backend \<Rightarrow> evaluator \<Rightarrow> expr \<Rightarrow> expr \<Rightarrow> int \<Rightarrow> options \<Rightarrow> tmp_result result" where
  "evalf_pow_real B ev base ex target_prec options =
     bind_r (ev ex (target_prec + 10) options) (\<lambda>(yre0, yim0, yre_acc0, yim_acc0).
       bind_r
         (if eint_less (Fin 5) (fastlog yre0) then
            (case fastlog yre0 of
               Fin ysize \<Rightarrow>
                 bind_r (ev ex (target_prec + 10 + ysize) options) (\<lambda>(yre, yim, yre_acc, yim_acc).
                   ok (target_prec + 10 + ysize, yre, yim))
             | _ \<Rightarrow> raise NonFinite)
          else ok (target_prec + 10, yre0, yim0))
         (\<lambda>(prec, yre, yim).
            if yim \<noteq> None then
              (if base = C_Exp1 then
                 (case mpc_exp B (or_fzero yre, or_fzero yim) prec of
                    (re, im) \<Rightarrow> lift (finalize_complex re im target_prec))
               else raise NotImplementedError)
            else
              bind_r (ev base prec options) (\<lambda>(xre, xim, xre_acc, xim_acc).
                case (xim, xre, yre) of
                  (Some xi, _, Some y) \<Rightarrow>
                    (case mpc_pow_mpf B (or_fzero xre, xi) y target_prec of
                       (re, im) \<Rightarrow> lift (finalize_complex re im target_prec))
                | (None, Some x, Some y) \<Rightarrow>
                    if fcmp_zero x < 0
                    then ok (None, Some (fpow B (fneg x) y target_prec), None, Some target_prec)
                    else ok (Some (fpow B x y target_prec), None, Some target_prec, None)
                | _ \<Rightarrow> raise TypeError)))"

definition evalf_pow ::
  "backend \<Rightarrow> evaluator \<Rightarrow> expr \<Rightarrow> expr \<Rightarrow> int \<Rightarrow> options \<Rightarrow> tmp_result result" where
  "evalf_pow B ev base ex prec options =
     (case integer_value ex of
        Some p \<Rightarrow> evalf_pow_int B ev base p prec options
      | None \<Rightarrow> evalf_pow_real B ev base ex prec options)"

section \<open>Special functions\<close>

text \<open>
  The loop of \<open>evalf_trig\<close>, on the state \<open>(re, xprec)\<close>; \<open>xsize\<close> is an integer there.
  \<open>func\<close> is \<open>fcos\<close> or \<open>fsin\<close>. When \<open>func\<close> returns \<open>fzero\<close>, \<open>gap\<close> is the float
  infinity.
\<close>

partial_function (option) evalf_trig_loop ::
  "(mpf \<Rightarrow> int \<Rightarrow> mpf) \<Rightarrow> evaluator \<Rightarrow> expr \<Rightarrow> int \<Rightarrow> options \<Rightarrow> int \<Rightarrow> mpf option \<Rightarrow> int
     \<Rightarrow> tmp_result result" where
  "evalf_trig_loop func ev arg prec options xsize re xprec =
     (case re of
        None \<Rightarrow> Some (Inl TypeError)
      | Some r \<Rightarrow>
          (case fastlog (Some (func r prec)) of
             Fin ysize \<Rightarrow>
               if (xprec - xsize) - (- ysize) < prec then
                 (if xprec > get_maxprec options
                  then Some (Inr (Some (func r prec), None, Some ((xprec - xsize) - (- ysize)), None))
                  else
                    (case ev arg (xprec + (- ysize)) options of
                       None \<Rightarrow> None
                     | Some (Inl e) \<Rightarrow> Some (Inl e)
                     | Some (Inr (re', im', re_accuracy, im_accuracy)) \<Rightarrow>
                         evalf_trig_loop func ev arg prec options xsize re' (xprec + (- ysize))))
               else Some (Inr (Some (func r prec), None, Some prec, None))
           | _ \<Rightarrow> Some (Inl NonFinite)))"

definition evalf_trig ::
  "backend \<Rightarrow> evaluator \<Rightarrow> expr \<Rightarrow> int \<Rightarrow> options \<Rightarrow> tmp_result result" where
  "evalf_trig B ev v prec options =
     (case (case v of C_cos arg \<Rightarrow> Some (fcos B, arg) | C_sin arg \<Rightarrow> Some (fsin B, arg) | _ \<Rightarrow> None) of
        None \<Rightarrow> raise NotImplementedError
      | Some (func, arg) \<Rightarrow>
          bind_r (ev arg (prec + 20) options) (\<lambda>(re, im, re_accuracy, im_accuracy).
            if im \<noteq> None then raise NotImplementedError
            else
              (case re of
                 None \<Rightarrow>
                   (case v of C_cos a \<Rightarrow> ok (Some fone, None, Some prec, None)
                            | _ \<Rightarrow> ok (None, None, None, None))
               | Some r \<Rightarrow>
                   if eint_less (fastlog re) (Fin 1)
                   then ok (Some (func r prec), None, Some prec, None)
                   else
                     (case fastlog re of
                        Fin xsize \<Rightarrow>
                          if xsize \<ge> 10 then
                            bind_r (ev arg (prec + xsize) options)
                              (\<lambda>(re', im', re_accuracy', im_accuracy').
                                 evalf_trig_loop func ev arg prec options xsize re' (prec + xsize))
                          else evalf_trig_loop func ev arg prec options xsize re (prec + 20)
                      | _ \<Rightarrow> raise NonFinite))))"

definition evalf_atan ::
  "backend \<Rightarrow> evaluator \<Rightarrow> expr \<Rightarrow> int \<Rightarrow> options \<Rightarrow> tmp_result result" where
  "evalf_atan B ev arg prec options =
     bind_r (ev arg (prec + 5) options) (\<lambda>(xre, xim, reacc, imacc).
       if xim \<noteq> None then raise NotImplementedError
       else
         (case xre of
            None \<Rightarrow> raise TypeError
          | Some x \<Rightarrow> ok (Some (fatan B x prec), None, Some prec, None)))"

section \<open>Floor and ceiling\<close>

text \<open>
  \<open>Integer.__new__\<close> of \<^verbatim>\<open>sympy/core/numbers.py\<close>: a Python integer becomes an
  \<open>Integer\<close>, or one of the singletons for 0, 1 and -1.
\<close>

definition sympify_int :: "int \<Rightarrow> expr" where
  "sympify_int n =
     (if n = 0 then C_Zero else if n = 1 then C_One else if n = - 1 then C_NegativeOne
      else C_Integer n)"

text \<open>
  Modelled from the spec: the product of a Python integer and \<open>S.ImaginaryUnit\<close>, which
  the multiplication of the expression classes, not among the sources, turns into zero,
  the unit, or a \<open>Mul\<close>.
\<close>

definition int_times_I :: "int \<Rightarrow> expr" where
  "int_times_I n =
     (if n = 0 then C_Zero else if n = 1 then C_ImaginaryUnit
      else C_Mul [sympify_int n, C_ImaginaryUnit])"

text \<open>
  The \<open>gap\<close> of \<open>get_integer_part\<close>: \<^verbatim>\<open>None\<close> when both parts are exact zeros.
\<close>

fun integer_gap :: "tmp_result \<Rightarrow> (error + eint) option" where
  "integer_gap (ire, iim, ire_acc, iim_acc) =
     (if ire \<noteq> None \<and> iim \<noteq> None then
        (case (ire_acc, iim_acc) of
           (Some ra, Some ia) \<Rightarrow>
             Some (Inr (eint_max (eint_sub (fastlog ire) (Fin ra)) (eint_sub (fastlog iim) (Fin ia))))
         | _ \<Rightarrow> Some (Inl TypeError))
      else if ire \<noteq> None then
        (case ire_acc of Some ra \<Rightarrow> Some (Inr (eint_sub (fastlog ire) (Fin ra)))
                       | None \<Rightarrow> Some (Inl TypeError))
      else if iim \<noteq> None then
        (case iim_acc of Some ia \<Rightarrow> Some (Inr (eint_sub (fastlog iim) (Fin ia)))
                       | None \<Rightarrow> Some (Inl TypeError))
      else None)"

text \<open>
  The certification of one part: \<open>e\<close> is the expression the source builds for the part,
  \<open>(x, x_acc)\<close> the part of its value at 10 bits that the source reads, and \<open>nint\<close> the
  candidate. The result is the corrected integer as an exact mpf value, with \<open>x_acc\<close>.
\<close>

definition certify_part :: "mpf option \<Rightarrow> int option \<Rightarrow> int \<Rightarrow> int \<Rightarrow> error + (mpf option \<times> int option)" where
  "certify_part x x_acc nint no =
     (case check_target (x, None, x_acc, None) 3 of
        Inl e \<Rightarrow> Inl e
      | Inr u \<Rightarrow>
          Inr (Some (from_int_exact (nint + no * (if fcmp_zero (or_fzero x) = no then 1 else 0))),
               x_acc))"

definition get_integer_part :: "evaluator \<Rightarrow> expr \<Rightarrow> int \<Rightarrow> options \<Rightarrow> tmp_result result" where
  "get_integer_part ev expr no options =
     bind_r (ev expr 30 options) (\<lambda>r0.
       case integer_gap r0 of
         None \<Rightarrow> ok (None, None, None, None)
       | Some (Inl e) \<Rightarrow> raise e
       | Some (Inr gap) \<Rightarrow>
           bind_r
             (if eint_le (Fin (- 10)) gap then
                (case gap of Fin g \<Rightarrow> ev expr (30 + g) options | _ \<Rightarrow> raise NonFinite)
              else ok r0)
             (\<lambda>(ire, iim, ire_acc, iim_acc).
                bind_r
                  (case ire of
                     None \<Rightarrow> ok (None, None)
                   | Some v \<Rightarrow>
                       bind_r (ev (C_Add [C_re expr, sympify_int (- to_int v)]) 10 options)
                         (\<lambda>(re, im, re_acc, im_acc). lift (certify_part re re_acc (to_int v) no)))
                  (\<lambda>(re, re_acc).
                     bind_r
                       (case iim of
                          None \<Rightarrow> ok (None, None)
                        | Some w \<Rightarrow>
                            bind_r (ev (C_Add [C_im expr, int_times_I (- to_int w)]) 10 options)
                              (\<lambda>(re', im, re_acc', im_acc). lift (certify_part im im_acc (to_int w) no)))
                       (\<lambda>(im, im_acc). ok (re, im, re_acc, im_acc)))))"

definition evalf_ceiling :: "evaluator \<Rightarrow> expr \<Rightarrow> int \<Rightarrow> options \<Rightarrow> tmp_result result" where
  "evalf_ceiling ev arg prec options = get_integer_part ev arg 1 options"

definition evalf_floor :: "evaluator \<Rightarrow> expr \<Rightarrow> int \<Rightarrow> options \<Rightarrow> tmp_result result" where
  "evalf_floor ev arg prec options = get_integer_part ev arg (- 1) options"

section \<open>The dispatcher and the entry point\<close>

text \<open>
  \<open>evalf_table\<close>, with \<open>ev\<close> for the calls of \<open>evalf\<close> that the evaluators make.
\<close>

fun evalf_table :: "backend \<Rightarrow> evaluator \<Rightarrow> expr \<Rightarrow> int \<Rightarrow> options \<Rightarrow> tmp_result result" where
  "evalf_table B ev (C_Real x) prec options = ok (Some x, None, Some prec, None)"
| "evalf_table B ev (C_Rational p q) prec options = ok (Some (from_rational p q prec), None, Some prec, None)"
| "evalf_table B ev (C_Integer p) prec options = ok (Some (from_int p prec), None, Some prec, None)"
| "evalf_table B ev C_Zero prec options = ok (None, None, Some prec, None)"
| "evalf_table B ev C_One prec options = ok (Some fone, None, Some prec, None)"
| "evalf_table B ev C_Half prec options = ok (Some fhalf, None, Some prec, None)"
| "evalf_table B ev C_Pi prec options = ok (Some (fpi B prec), None, Some prec, None)"
| "evalf_table B ev C_Exp1 prec options = ok (Some (fe B prec), None, Some prec, None)"
| "evalf_table B ev C_ImaginaryUnit prec options = ok (None, Some fone, None, Some prec)"
| "evalf_table B ev C_NegativeOne prec options = ok (Some fnone, None, Some prec, None)"
| "evalf_table B ev (C_exp a) prec options = evalf_pow B ev C_Exp1 a prec options"
| "evalf_table B ev (C_cos a) prec options = evalf_trig B ev (C_cos a) prec options"
| "evalf_table B ev (C_sin a) prec options = evalf_trig B ev (C_sin a) prec options"
| "evalf_table B ev (C_Add args) prec options = evalf_add ev args prec options"
| "evalf_table B ev (C_Mul args) prec options = evalf_mul ev args prec options"
| "evalf_table B ev (C_Pow base ex) prec options = evalf_pow B ev base ex prec options"
| "evalf_table B ev (C_atan a) prec options = evalf_atan B ev a prec options"
| "evalf_table B ev (C_re a) prec options = evalf_re ev a prec options"
| "evalf_table B ev (C_im a) prec options = evalf_im ev a prec options"
| "evalf_table B ev (C_floor a) prec options = evalf_floor ev a prec options"
| "evalf_table B ev (C_ceiling a) prec options = evalf_ceiling ev a prec options"

text \<open>
  The body of \<open>evalf\<close> after the table: chopping and the strict check, as the options ask.
\<close>

definition evalf_post :: "tmp_result \<Rightarrow> int \<Rightarrow> options \<Rightarrow> error + tmp_result" where
  "evalf_post r prec options =
     (case (if chop options then chop_parts r prec else Inr r) of
        Inl e \<Rightarrow> Inl e
      | Inr r' \<Rightarrow>
          if strict options then
            (case check_target r' prec of Inl e \<Rightarrow> Inl e | Inr u \<Rightarrow> Inr r')
          else Inr r')"

definition evalf_body :: "backend \<Rightarrow> evaluator \<Rightarrow> expr \<Rightarrow> int \<Rightarrow> options \<Rightarrow> tmp_result result" where
  "evalf_body B ev x prec options =
     bind_r (evalf_table B ev x prec options) (\<lambda>r. lift (evalf_post r prec options))"

text \<open>
  \<open>evalf\<close>, with the depth of the nested calls bounded by \<open>fuel\<close>: out of fuel, the call
  gives no result.
\<close>

fun evalf :: "backend \<Rightarrow> nat \<Rightarrow> expr \<Rightarrow> int \<Rightarrow> options \<Rightarrow> tmp_result result" where
  "evalf B 0 x prec options = None"
| "evalf B (Suc fuel) x prec options = evalf_body B (evalf B fuel) x prec options"

text \<open>
  \<open>Basic_evalf\<close>, from \<open>prec = dps_to_prec(n)\<close> on and with \<open>maxprec\<close> in bits (the two
  conversions from decimal digits are float computations). \<open>ev\<close> is \<open>evalf\<close>, and
  \<open>eval_evalf\<close> the method \<open>_eval_evalf\<close> of the expression classes. The result is the
  expression itself, or the two parts wrapped by \<open>C.Real._new\<close> with their precisions.
\<close>

datatype number = Real_new mpf int | S_Zero

datatype evalf_output = Unevaluated expr | Number number "number option"

fun part_precision :: "int \<Rightarrow> int option \<Rightarrow> int" where
  "part_precision prec None = 1"
| "part_precision prec (Some acc) = max (min prec acc) 1"

fun wrap_result :: "tmp_result \<Rightarrow> int \<Rightarrow> evalf_output" where
  "wrap_result (re, im, re_acc, im_acc) prec =
     Number (case re of None \<Rightarrow> S_Zero | Some r \<Rightarrow> Real_new r (part_precision prec re_acc))
            (case im of None \<Rightarrow> None | Some i \<Rightarrow> Some (Real_new i (part_precision prec im_acc)))"

definition Basic_evalf ::
  "evaluator \<Rightarrow> (expr \<Rightarrow> int \<Rightarrow> expr option) \<Rightarrow> expr \<Rightarrow> int \<Rightarrow> options \<Rightarrow> evalf_output result" where
  "Basic_evalf ev eval_evalf x prec options0 =
     (let options = options0\<lparr>maxprec :=
            Some (case maxprec options0 of Some m \<Rightarrow> m | None \<Rightarrow> max prec DEFAULT_MAXPREC)\<rparr>
      in case ev x (prec + 4) options of
           None \<Rightarrow> None
         | Some (Inr result) \<Rightarrow> ok (wrap_result result prec)
         | Some (Inl NotImplementedError) \<Rightarrow>
             (case eval_evalf x prec of
                None \<Rightarrow> ok (Unevaluated x)
              | Some v \<Rightarrow>
                  (case ev v prec options of
                     None \<Rightarrow> None
                   | Some (Inr result) \<Rightarrow> ok (wrap_result result prec)
                   | Some (Inl e) \<Rightarrow> ok (Unevaluated v)))
         | Some (Inl e) \<Rightarrow> raise e)"


section \<open>Loops that do not return\<close>

text \<open>
  An evaluation of \<open>expr\<close> at the working precision \<open>w\<close> on which the loop of
  \<open>get_complex_part\<close> cannot stop: it does not return, or it returns a part that is present
  with an accuracy below \<open>prec\<close>.
\<close>

definition stuck_at :: "evaluator \<Rightarrow> expr \<Rightarrow> int \<Rightarrow> int \<Rightarrow> options \<Rightarrow> int \<Rightarrow> bool" where
  "stuck_at ev expr no prec options w \<longleftrightarrow>
     ev expr w options = None \<or>
     (\<exists>r v a. ev expr w options = Some (Inr r) \<and> select_part no r = Inr (Some v, a) \<and>
        \<not> py_ge a prec)"

section \<open>Running the evaluators on examples\<close>

text \<open>
  The defining equations of the three loops are code equations, so that the evaluators
  run on concrete expressions.
\<close>

declare get_complex_part_loop.simps [code]
declare evalf_trig_loop.simps [code]
declare evalf_add_loop.simps [code]

text \<open>
  A backend whose every function returns the value one, and the options an entry without
  keyword arguments starts from. The examples below either call no function of the
  backend or are about the accuracies alone.
\<close>

definition sample_backend :: backend where
  "sample_backend =
     \<lparr>fpi = (\<lambda>prec. fone), fe = (\<lambda>prec. fone), fcos = (\<lambda>x prec. fone), fsin = (\<lambda>x prec. fone),
      fatan = (\<lambda>x prec. fone), fpowi = (\<lambda>x p prec. fone), fpow = (\<lambda>x y prec. fone),
      mpc_pow_int = (\<lambda>z p prec. (fone, fone)), mpc_pow_mpf = (\<lambda>z y prec. (fone, fone)),
      mpc_exp = (\<lambda>z prec. (fone, fone))\<rparr>"

definition default_options :: options where
  "default_options = \<lparr>maxprec = None, chop = False, strict = False\<rparr>"

text \<open>
  The sample backend with a sine that returns \<open>-2^-22\<close>: the size of the sine of 355/113,
  which is less than \<open>2^-21\<close> away from \<open>\<pi>\<close>.
\<close>

definition root_backend :: backend where
  "root_backend = sample_backend\<lparr>fsin := (\<lambda>x prec. (1, 1, - 22, 1))\<rparr>"

section \<open>Properties of rounding\<close>

text \<open>
  What \<open>normalize\<close> does to the value of a tuple: the mantissa is replaced by a multiple
  of the unit in the last place that is at most half a unit away, which is a relative
  error of at most \<open>2^-prec\<close>; \<open>from_int\<close> and \<open>from_rational\<close> inherit the bound.
\<close>

lemma trailing_odd: "odd m \<Longrightarrow> trailing m = 0"
  by (subst trailing.simps) (simp del: trailing.simps)

lemma trailing_even: "m \<noteq> 0 \<Longrightarrow> even m \<Longrightarrow> trailing m = Suc (trailing (m div 2))"
  by (subst trailing.simps) (simp del: trailing.simps)

lemma trailing_factor: "m \<noteq> 0 \<Longrightarrow> (m div 2 ^ trailing m) * 2 ^ trailing m = m"
proof (induction m rule: trailing.induct)
  case (1 m)
  show ?case
  proof (cases "odd m")
    case True
    then show ?thesis by (simp add: trailing_odd del: trailing.simps)
  next
    case False
    then obtain k where k: "m = 2 * k" by (auto elim: evenE)
    with 1(2) have k0: "k \<noteq> 0" by auto
    have t: "trailing m = Suc (trailing k)"
      using trailing_even[OF 1(2)] False k by (simp del: trailing.simps)
    have "\<not> (m = 0 \<or> odd m)" using 1(2) False by simp
    from 1(1)[OF this] k k0 have IH: "(k div 2 ^ trailing k) * 2 ^ trailing k = k"
      by (simp del: trailing.simps)
    have "m div 2 ^ Suc (trailing k) = k div 2 ^ trailing k"
      unfolding k by (simp del: trailing.simps)
    then have "(m div 2 ^ Suc (trailing k)) * 2 ^ Suc (trailing k)
        = (k div 2 ^ trailing k) * 2 ^ trailing k * 2"
      by (simp del: trailing.simps)
    with IH k show ?thesis unfolding t by (simp del: trailing.simps)
  qed
qed

lemma round_nearest_shift_error:
  assumes "0 \<le> man" and "1 \<le> n"
  shows "\<bar>round_nearest_shift man n * 2 ^ nat n - man\<bar> \<le> 2 ^ nat (n - 1)"
proof -
  define h :: int where "h = 2 ^ nat (n - 1)"
  define t where "t = man div h"
  define rm where "rm = man mod h"
  have h: "0 < h" unfolding h_def by simp
  have pw: "(2::int) ^ nat n = 2 * h"
  proof -
    have "nat n = Suc (nat (n - 1))" using assms(2) by simp
    then show ?thesis unfolding h_def by simp
  qed
  have man: "man = t * h + rm" unfolding t_def rm_def by simp
  have rm: "0 \<le> rm" "rm < h" unfolding rm_def using h by simp_all
  have r: "round_nearest_shift man n =
      (if odd t \<and> (odd (t div 2) \<or> rm \<noteq> 0) then t div 2 + 1 else t div 2)"
    unfolding round_nearest_shift_def Let_def t_def rm_def h_def by simp
  show ?thesis
  proof (cases "odd t")
    case True
    then obtain u where u: "t = 2 * u + 1" by (auto elim: oddE)
    then have d: "t div 2 = u" by simp
    have man': "man = 2 * u * h + h + rm" unfolding man u by (simp add: algebra_simps)
    show ?thesis
    proof (cases "odd u \<or> rm \<noteq> 0")
      case True
      with \<open>odd t\<close> d have "round_nearest_shift man n = u + 1" unfolding r by simp
      then have "round_nearest_shift man n * 2 ^ nat n - man = h - rm"
        unfolding pw man' by (simp add: algebra_simps)
      with rm show ?thesis unfolding h_def[symmetric] by simp
    next
      case False
      with \<open>odd t\<close> d have "round_nearest_shift man n = u" unfolding r by simp
      then have "round_nearest_shift man n * 2 ^ nat n - man = - h - rm"
        unfolding pw man' by (simp add: algebra_simps)
      with False h show ?thesis unfolding h_def[symmetric] by simp
    qed
  next
    case False
    then obtain u where u: "t = 2 * u" by (auto elim: evenE)
    then have d: "t div 2 = u" by simp
    have man': "man = 2 * u * h + rm" unfolding man u by (simp add: algebra_simps)
    from False d have "round_nearest_shift man n = u" unfolding r by simp
    then have "round_nearest_shift man n * 2 ^ nat n - man = - rm"
      unfolding pw man' by (simp add: algebra_simps)
    with rm show ?thesis unfolding h_def[symmetric] by simp
  qed
qed

lemma round_nearest_shift_pos:
  assumes "2 ^ nat n \<le> man" and "1 \<le> n"
  shows "1 \<le> round_nearest_shift man n"
proof -
  define h :: int where "h = 2 ^ nat (n - 1)"
  have h: "0 < h" unfolding h_def by simp
  have pw: "(2::int) ^ nat n = 2 * h"
  proof -
    have "nat n = Suc (nat (n - 1))" using assms(2) by simp
    then show ?thesis unfolding h_def by simp
  qed
  have "2 * h \<le> man" using assms(1) pw by simp
  then have "2 \<le> man div h" using h
    by (metis mult.commute pos_imp_zdiv_pos_iff zdiv_mono1 nonzero_mult_div_cancel_right less_irrefl)
  then have "1 \<le> (man div h) div 2" by simp
  then show ?thesis
    unfolding round_nearest_shift_def Let_def h_def[symmetric] by auto
qed

lemma normalize_mpf_value:
  assumes "man \<noteq> 0"
    and "man1 = (if bc - prec > 0 then round_nearest_shift man (bc - prec) else man)"
    and "exp1 = (if bc - prec > 0 then expn + (bc - prec) else expn)"
    and "man1 \<noteq> 0"
  shows "mpf_value (normalize_mpf sign man expn bc prec) =
           (if sign \<noteq> 0 then - 1 else 1) * real_of_int man1 * 2 powr real_of_int exp1"
proof -
  define t where "t = trailing man1"
  define man2 where "man2 = man1 div 2 ^ t"
  have f: "man2 * 2 ^ t = man1"
    unfolding man2_def t_def using trailing_factor[OF assms(4)] .
  have n: "normalize_mpf sign man expn bc prec =
      (sign, man2, exp1 + int t, if man2 = 1 then 1 else (if bc - prec > 0 then prec else bc) - int t)"
    using assms(1)
    unfolding normalize_mpf_def Let_def man2_def t_def assms(2,3)
    by (simp del: trailing.simps)
  have "2 powr real_of_int (exp1 + int t) = 2 powr real_of_int exp1 * 2 ^ t"
    by (simp add: powr_add powr_realpow)
  moreover have "real_of_int man1 = real_of_int man2 * 2 ^ t"
    using f by (metis of_int_mult of_int_numeral of_int_power)
  ultimately show ?thesis
    unfolding n mpf_value_def by simp
qed

lemma bitcount_lower: "0 < man \<Longrightarrow> 2 ^ nat (bitcount man - 1) \<le> man"
  unfolding bitcount_def using bitlen_bounds[of man] by simp



lemma normalize_mpf_round:
  assumes "0 < man" and "1 \<le> prec"
  shows "\<exists>R. mpf_value (normalize_mpf sign man expn (bitcount man) prec) =
               (if sign \<noteq> 0 then - 1 else 1) * real_of_int R * 2 powr real_of_int expn \<and>
             (bitcount man \<le> prec \<longrightarrow> R = man) \<and>
             (prec < bitcount man \<longrightarrow>
                \<bar>R - man\<bar> \<le> 2 ^ nat (bitcount man - prec - 1) \<and>
                2 ^ nat (bitcount man - prec) dvd R)"
proof (cases "bitcount man - prec > 0")
  case False
  have "mpf_value (normalize_mpf sign man expn (bitcount man) prec) =
      (if sign \<noteq> 0 then - 1 else 1) * real_of_int man * 2 powr real_of_int expn"
    using normalize_mpf_value[of man man "bitcount man" prec expn expn sign] assms(1) False
    by simp
  with False show ?thesis by auto
next
  case True
  define n where "n = bitcount man - prec"
  have n: "1 \<le> n" using True unfolding n_def by simp
  define man1 where "man1 = round_nearest_shift man n"
  have "nat n \<le> nat (bitcount man - 1)" using assms(2) unfolding n_def by simp
  then have "(2::int) ^ nat n \<le> 2 ^ nat (bitcount man - 1)"
    by (rule power_increasing) simp
  with bitcount_lower[OF assms(1)] have "2 ^ nat n \<le> man" by (rule order_trans[rotated])
  from round_nearest_shift_pos[OF this n] have pos: "1 \<le> man1" unfolding man1_def .
  have v: "mpf_value (normalize_mpf sign man expn (bitcount man) prec) =
      (if sign \<noteq> 0 then - 1 else 1) * real_of_int man1 * 2 powr real_of_int (expn + n)"
    using normalize_mpf_value[of man man1 "bitcount man" prec "expn + n" expn sign]
      assms(1) True pos
    unfolding man1_def n_def by simp
  have "2 powr real_of_int (expn + n) = 2 powr real_of_int expn * 2 ^ nat n"
    using n by (simp add: powr_add powr_realpow[symmetric])
  then have v': "mpf_value (normalize_mpf sign man expn (bitcount man) prec) =
      (if sign \<noteq> 0 then - 1 else 1) * real_of_int (man1 * 2 ^ nat n) * 2 powr real_of_int expn"
    unfolding v by simp
  have err: "\<bar>man1 * 2 ^ nat n - man\<bar> \<le> 2 ^ nat (n - 1)"
    unfolding man1_def using round_nearest_shift_error[of man n] assms(1) n by simp
  have dv: "(2::int) ^ nat n dvd man1 * 2 ^ nat n" by simp
  have e1: "nat (n - 1) = nat (bitcount man - prec - 1)" and e2: "nat n = nat (bitcount man - prec)"
    by (simp_all add: n_def)
  show ?thesis
  proof (intro exI[of _ "man1 * 2 ^ nat n"] conjI impI)
    show "mpf_value (normalize_mpf sign man expn (bitcount man) prec) =
      (if sign \<noteq> 0 then - 1 else 1) * real_of_int (man1 * 2 ^ nat n) * 2 powr real_of_int expn"
      by (rule v')
    show "man1 * 2 ^ nat n = man" if "bitcount man \<le> prec"
      using that True by simp
    show "\<bar>man1 * 2 ^ nat n - man\<bar> \<le> 2 ^ nat (bitcount man - prec - 1)"
      using err unfolding e1 .
    show "2 ^ nat (bitcount man - prec) dvd man1 * 2 ^ nat n"
      using dv unfolding e2 .
  qed
qed

lemma round_relative:
  assumes "0 < man" and "1 \<le> prec" and "prec < bitcount man"
    and "\<bar>R - man\<bar> \<le> 2 ^ nat (bitcount man - prec - 1)"
  shows "\<bar>R - man\<bar> * 2 ^ nat prec \<le> man"
proof -
  have "nat (bitcount man - prec - 1) + nat prec = nat (bitcount man - 1)"
    using assms(2,3) by simp
  then have "(2::int) ^ nat (bitcount man - prec - 1) * 2 ^ nat prec = 2 ^ nat (bitcount man - 1)"
    by (simp add: power_add[symmetric])
  moreover have "\<bar>R - man\<bar> * 2 ^ nat prec \<le> 2 ^ nat (bitcount man - prec - 1) * 2 ^ nat prec"
    using assms(4) by (rule mult_right_mono) simp
  ultimately show ?thesis
    using bitcount_lower[OF assms(1)] by linarith
qed

lemma normalize_mpf_relative:
  assumes "0 < man" and "1 \<le> prec"
  shows "\<exists>R. mpf_value (normalize_mpf sign man expn (bitcount man) prec) =
               (if sign \<noteq> 0 then - 1 else 1) * real_of_int R * 2 powr real_of_int expn \<and>
             (bitcount man \<le> prec \<longrightarrow> R = man) \<and>
             \<bar>R - man\<bar> * 2 ^ nat prec \<le> man"
proof -
  from normalize_mpf_round[OF assms, of sign expn] obtain R where
    v: "mpf_value (normalize_mpf sign man expn (bitcount man) prec) =
               (if sign \<noteq> 0 then - 1 else 1) * real_of_int R * 2 powr real_of_int expn"
    and ex: "bitcount man \<le> prec \<longrightarrow> R = man"
    and er: "prec < bitcount man \<longrightarrow> \<bar>R - man\<bar> \<le> 2 ^ nat (bitcount man - prec - 1)"
    by blast
  have "\<bar>R - man\<bar> * 2 ^ nat prec \<le> man"
  proof (cases "prec < bitcount man")
    case True
    with er round_relative[OF assms True] show ?thesis by blast
  next
    case False
    with ex assms(1) show ?thesis by simp
  qed
  with v ex show ?thesis by blast
qed








lemma normalize_mpf_rounds:
  assumes "m \<noteq> 0" and "1 \<le> prec"
  shows "\<bar>mpf_value (normalize_mpf (if m < 0 then 1 else 0) \<bar>m\<bar> e (bitcount \<bar>m\<bar>) prec)
            - real_of_int m * 2 powr real_of_int e\<bar> * 2 ^ nat prec
         \<le> \<bar>real_of_int m * 2 powr real_of_int e\<bar>"
proof -
  define s where "s = 2 powr real_of_int e"
  have s: "0 < s" unfolding s_def by simp
  have pos: "0 < \<bar>m\<bar>" using assms(1) by simp
  have sg: "(if (if m < 0 then 1 else 0) \<noteq> (0::int) then - 1 else 1) = (if m < 0 then - 1 else (1::real))"
    by simp
  have "\<exists>R. mpf_value (normalize_mpf (if m < 0 then 1 else 0) \<bar>m\<bar> e (bitcount \<bar>m\<bar>) prec)
          = (if m < 0 then - 1 else 1) * real_of_int R * s \<and>
        \<bar>R - \<bar>m\<bar>\<bar> * 2 ^ nat prec \<le> \<bar>m\<bar>"
    using normalize_mpf_relative[OF pos assms(2), of "if m < 0 then 1 else 0" e]
    unfolding sg s_def by blast
  then obtain R where
    v: "mpf_value (normalize_mpf (if m < 0 then 1 else 0) \<bar>m\<bar> e (bitcount \<bar>m\<bar>) prec)
          = (if m < 0 then - 1 else 1) * real_of_int R * s"
    and er: "\<bar>R - \<bar>m\<bar>\<bar> * 2 ^ nat prec \<le> \<bar>m\<bar>"
    by blast
  have ms: "real_of_int m = (if m < 0 then - 1 else 1) * real_of_int \<bar>m\<bar>"
    by (cases "m < 0") simp_all
  have d: "\<bar>mpf_value (normalize_mpf (if m < 0 then 1 else 0) \<bar>m\<bar> e (bitcount \<bar>m\<bar>) prec)
            - real_of_int m * s\<bar> = real_of_int \<bar>R - \<bar>m\<bar>\<bar> * s"
  proof -
    have "mpf_value (normalize_mpf (if m < 0 then 1 else 0) \<bar>m\<bar> e (bitcount \<bar>m\<bar>) prec)
            - real_of_int m * s
          = (if m < 0 then - 1 else 1) * (real_of_int (R - \<bar>m\<bar>) * s)"
      unfolding v by (cases "m < 0") (simp_all add: algebra_simps)
    then show ?thesis using s by (cases "m < 0") (simp_all add: abs_mult)
  qed
  have a: "\<bar>real_of_int m * s\<bar> = real_of_int \<bar>m\<bar> * s"
    using s by (simp add: abs_mult)
  have "real_of_int (\<bar>R - \<bar>m\<bar>\<bar> * 2 ^ nat prec) \<le> real_of_int \<bar>m\<bar>"
    using er by (rule iffD2[OF of_int_le_iff])
  then have "real_of_int \<bar>R - \<bar>m\<bar>\<bar> * 2 ^ nat prec \<le> real_of_int \<bar>m\<bar>" by simp
  then have "real_of_int \<bar>R - \<bar>m\<bar>\<bar> * 2 ^ nat prec * s \<le> real_of_int \<bar>m\<bar> * s"
    using s by (intro mult_right_mono) simp_all
  then show ?thesis unfolding s_def[symmetric] d a by (simp add: algebra_simps)
qed


section \<open>Properties of the guarded summation\<close>

lemma eint_max_Fin [simp]: "eint_max (Fin a) (Fin b) = Fin (max a b)"
  by (simp add: max_def)

lemma eint_max_MINUS_INF [simp]: "eint_max MINUS_INF (Fin b) = Fin b"
  by simp

lemma step_error:
  "snd (snd (add_terms_step prec (sm, se, ae) t)) =
     (case t of (None, accuracy) \<Rightarrow> ae
        | (Some (sign, man, expn, bc), accuracy) \<Rightarrow> eint_max ae (Fin (bc + expn - accuracy)))"
  by (cases t) (auto simp: Let_def split: option.splits)

lemma loop_error_gen:
  "snd (snd (foldl (add_terms_step prec) (sm, se, Fin a) terms)) =
     Fin (Max (insert a (set (term_errors terms))))"
proof (induction terms arbitrary: sm se a)
  case Nil
  show ?case by (simp add: term_errors_def)
next
  case (Cons t ts)
  obtain x accuracy where t: "t = (x, accuracy)" by (cases t)
  show ?case
  proof (cases x)
    case None
    with t Cons show ?thesis by (simp add: term_errors_def)
  next
    case (Some v)
    obtain sign man expn bc where v: "v = (sign, man, expn, bc)" by (cases v)
    obtain sm' se' ae' where st0: "add_terms_step prec (sm, se, Fin a) t = (sm', se', ae')"
      by (cases "add_terms_step prec (sm, se, Fin a) t") auto
    have "ae' = Fin (max a (bc + expn - accuracy))"
      using step_error[of prec sm se "Fin a" t] st0 t Some v by simp
    with st0 have st: "add_terms_step prec (sm, se, Fin a) t = (sm', se', Fin (max a (bc + expn - accuracy)))"
      by simp
    have "insert (max a (bc + expn - accuracy)) (set (term_errors ts)) \<noteq> {}" by simp
    have "Max (insert (max a (bc + expn - accuracy)) (set (term_errors ts)))
        = Max (insert a (insert (bc + expn - accuracy) (set (term_errors ts))))"
      by (cases "set (term_errors ts) = {}") (simp_all add: max.assoc)
    with st Cons[of sm' se' "max a (bc + expn - accuracy)"] t Some v show ?thesis
      by (simp add: term_errors_def del: add_terms_step.simps)
  qed
qed

lemma loop_error_start:
  "snd (snd (foldl (add_terms_step prec) (sm, se, MINUS_INF) terms)) =
     (if term_errors terms = [] then MINUS_INF else Fin (Max (set (term_errors terms))))"
proof (induction terms arbitrary: sm se)
  case Nil
  show ?case by (simp add: term_errors_def)
next
  case (Cons t ts)
  obtain x accuracy where t: "t = (x, accuracy)" by (cases t)
  show ?case
  proof (cases x)
    case None
    with t Cons show ?thesis by (simp add: term_errors_def)
  next
    case (Some v)
    obtain sign man expn bc where v: "v = (sign, man, expn, bc)" by (cases v)
    obtain sm' se' ae' where st0: "add_terms_step prec (sm, se, MINUS_INF) t = (sm', se', ae')"
      by (cases "add_terms_step prec (sm, se, MINUS_INF) t") auto
    have "ae' = Fin (bc + expn - accuracy)"
      using step_error[of prec sm se MINUS_INF t] st0 t Some v by simp
    with st0 have st: "add_terms_step prec (sm, se, MINUS_INF) t = (sm', se', Fin (bc + expn - accuracy))"
      by simp
    have te: "term_errors (t # ts) = (bc + expn - accuracy) # term_errors ts"
      using t Some v by (simp add: term_errors_def)
    show ?thesis
      using st loop_error_gen[of prec sm' se' "bc + expn - accuracy" ts]
      by (simp add: te del: add_terms_step.simps)
  qed
qed

lemma add_terms_loop_error:
  "snd (snd (add_terms_loop prec terms)) =
     (if term_errors terms = [] then MINUS_INF else Fin (Max (set (term_errors terms))))"
  unfolding add_terms_loop_def by (rule loop_error_start)


lemma powr_shift:
  assumes "0 \<le> d"
  shows "(2::real) ^ nat d * 2 powr real_of_int s = 2 powr real_of_int (s + d)"
proof -
  have "(2::real) ^ nat d = 2 powr real_of_int d"
    using assms by (simp add: powr_realpow[symmetric])
  then show ?thesis by (simp add: powr_add[symmetric] add.commute)
qed

lemma step_sum:
  assumes "L \<le> se" and "se \<le> U" and "L \<le> expn" and "expn \<le> U" and "U - L \<le> 4 * prec"
    and st: "add_terms_step prec (sm, se, ae) (Some (sign, man, expn, bc), accuracy) = (sm', se', ae')"
  shows "real_of_int sm' * 2 powr real_of_int se'
           = real_of_int sm * 2 powr real_of_int se + mpf_value (sign, man, expn, bc)
         \<and> L \<le> se' \<and> se' \<le> U"
proof (cases "se \<le> expn")
  case True
  then have d: "\<not> expn - se > 4 * prec" using assms by linarith
  from st True d have eq: "sm' = sm + (if sign \<noteq> 0 then - man else man) * 2 ^ nat (expn - se)" "se' = se"
    by (auto simp: Let_def)
  have "(2::real) ^ nat (expn - se) * 2 powr real_of_int se = 2 powr real_of_int expn"
    using powr_shift[of "expn - se" se] True by simp
  then have "real_of_int ((if sign \<noteq> 0 then - man else man) * 2 ^ nat (expn - se)) * 2 powr real_of_int se
      = mpf_value (sign, man, expn, bc)"
    by (simp add: mpf_value_def mult.assoc)
  then show ?thesis using assms(1,2) unfolding eq by (simp add: algebra_simps)
next
  case False
  then have d: "\<not> - (expn - se) > 4 * prec" using assms by linarith
  from st False d have eq: "sm' = sm * 2 ^ nat (- (expn - se)) + (if sign \<noteq> 0 then - man else man)" "se' = expn"
    by (auto simp: Let_def)
  have "(2::real) ^ nat (se - expn) * 2 powr real_of_int expn = 2 powr real_of_int se"
    using powr_shift[of "se - expn" expn] False by simp
  then have "real_of_int (sm * 2 ^ nat (- (expn - se))) * 2 powr real_of_int expn
      = real_of_int sm * 2 powr real_of_int se"
    by (simp add: mult.assoc)
  moreover have "real_of_int (if sign \<noteq> 0 then - man else man) * 2 powr real_of_int expn
      = mpf_value (sign, man, expn, bc)"
    by (simp add: mpf_value_def)
  ultimately show ?thesis using assms(3,4) unfolding eq
    by (simp add: algebra_simps del: of_int_mult of_int_power)
qed

lemma loop_sum_gen:
  assumes "L \<le> se" and "se \<le> U" and "U - L \<le> 4 * prec"
    and "\<forall>e \<in> set (term_exponents terms). L \<le> e \<and> e \<le> U"
    and "foldl (add_terms_step prec) (sm, se, ae) terms = (sm', se', ae')"
  shows "real_of_int sm' * 2 powr real_of_int se'
           = real_of_int sm * 2 powr real_of_int se + terms_sum terms"
  using assms
proof (induction terms arbitrary: sm se ae)
  case Nil
  then show ?case by (simp add: terms_sum_def)
next
  case (Cons t ts)
  obtain x accuracy where t: "t = (x, accuracy)" by (cases t)
  show ?case
  proof (cases x)
    case None
    have ex: "term_exponents (t # ts) = term_exponents ts"
      using t None by (simp add: term_exponents_def)
    have su: "terms_sum (t # ts) = terms_sum ts"
      using t None by (simp add: terms_sum_def)
    have "foldl (add_terms_step prec) (sm, se, ae) ts = (sm', se', ae')"
      using Cons.prems(5) t None by simp
    from Cons.IH[OF Cons.prems(1,2,3) _ this] Cons.prems(4) show ?thesis
      unfolding ex su by simp
  next
    case (Some v)
    obtain sign man expn bc where v: "v = (sign, man, expn, bc)" by (cases v)
    have ex: "term_exponents (t # ts) = expn # term_exponents ts"
      using t Some v by (simp add: term_exponents_def)
    have su: "terms_sum (t # ts) = mpf_value (sign, man, expn, bc) + terms_sum ts"
      using t Some v by (simp add: terms_sum_def)
    obtain sm1 se1 ae1
      where st: "add_terms_step prec (sm, se, ae) (Some (sign, man, expn, bc), accuracy) = (sm1, se1, ae1)"
      by (cases "add_terms_step prec (sm, se, ae) (Some (sign, man, expn, bc), accuracy)") auto
    have e: "L \<le> expn" "expn \<le> U" using Cons.prems(4) unfolding ex by simp_all
    have rest: "\<forall>e \<in> set (term_exponents ts). L \<le> e \<and> e \<le> U"
      using Cons.prems(4) unfolding ex by simp
    from step_sum[OF Cons.prems(1,2) e Cons.prems(3) st]
    have one: "real_of_int sm1 * 2 powr real_of_int se1
                 = real_of_int sm * 2 powr real_of_int se + mpf_value (sign, man, expn, bc)"
      and b: "L \<le> se1" "se1 \<le> U" by simp_all
    have "foldl (add_terms_step prec) (sm1, se1, ae1) ts = (sm', se', ae')"
      using Cons.prems(5) t Some v st by (simp del: add_terms_step.simps)
    from Cons.IH[OF b Cons.prems(3) rest this] one show ?thesis
      unfolding su by simp
  qed
qed

lemma loop_sum_absent:
  assumes "term_exponents terms = []"
  shows "foldl (add_terms_step prec) (sm, se, ae) terms = (sm, se, ae) \<and> terms_sum terms = 0"
  using assms
proof (induction terms)
  case Nil
  show ?case by (simp add: terms_sum_def)
next
  case (Cons t ts)
  obtain x accuracy where t: "t = (x, accuracy)" by (cases t)
  from Cons.prems t have x: "x = None"
    by (cases x) (simp_all add: term_exponents_def del: not_None_eq split_paired_Ex)
  from Cons.prems t x have "term_exponents ts = []" by (simp add: term_exponents_def)
  from Cons.IH[OF this] t x show ?case by (simp add: terms_sum_def)
qed

lemma add_terms_loop_sum:
  assumes "terms_kept prec terms"
    and "add_terms_loop prec terms = (sum_man, sum_exp, absolute_error)"
  shows "real_of_int sum_man * 2 powr real_of_int sum_exp = terms_sum terms"
proof (cases "term_exponents terms = []")
  case True
  from loop_sum_absent[OF True, of prec 0 0 MINUS_INF] assms(2)
  show ?thesis by (simp add: add_terms_loop_def)
next
  case False
  define S where "S = set (term_exponents terms)"
  have fin: "finite S" and ne: "S \<noteq> {}" unfolding S_def using False by simp_all
  define U where "U = max (Max S) 0"
  define L where "L = min (Min S) 0"
  have "Max S \<in> S" "Min S \<in> S" using fin ne by simp_all
  then have span: "U - L \<le> 4 * prec"
    using assms(1) unfolding terms_kept_def S_def[symmetric] U_def L_def by blast
  have all: "\<forall>e \<in> set (term_exponents terms). L \<le> e \<and> e \<le> U"
    unfolding S_def[symmetric] U_def L_def using fin
    by (auto simp: min_le_iff_disj le_max_iff_disj)
  have "L \<le> 0" "0 \<le> U" unfolding L_def U_def by simp_all
  from loop_sum_gen[OF this span all, where sm = 0 and ae = MINUS_INF and sm' = sum_man
      and se' = sum_exp and ae' = absolute_error]
  show ?thesis using assms(2) by (simp add: add_terms_loop_def)
qed


text \<open>
  C2 (amended). A one-term list whose term is present is returned as it is: the value is
  not rounded and the accuracy is the term's own. For every list that is not a one-term
  list, \<open>add_terms\<close> tracks \<open>absolute_error\<close> as the maximum over the present terms
  of the term magnitude \<open>bc + exp\<close> minus the term accuracy; the aligned sum
  \<open>sum_man * 2 ^ sum_exp\<close> is the exact sum of the present terms whenever no term is
  dropped as negligible (\<open>terms_kept\<close>); a list with no present term gives no value and
  no accuracy; and when the aligned sum is not zero, the result is the aligned sum rounded
  to \<open>target_prec\<close> bits, within \<open>2^-target_prec\<close> of its size, with the accuracy
  \<open>sum_exp + bitcount sum_man - absolute_error\<close>.
\<close>

theorem add_terms_spec:
  "(\<forall>v accuracy. terms = [(Some v, accuracy)] \<longrightarrow>
       add_terms terms prec target_prec = (Some v, Some accuracy)) \<and>
   (length terms \<noteq> 1 \<longrightarrow>
     (case add_terms_loop prec terms of (sum_man, sum_exp, absolute_error) \<Rightarrow>
        absolute_error =
          (if term_errors terms = [] then MINUS_INF else Fin (Max (set (term_errors terms)))) \<and>
        (terms_kept prec terms \<longrightarrow>
           real_of_int sum_man * 2 powr real_of_int sum_exp = terms_sum terms) \<and>
        (term_errors terms = [] \<longrightarrow> add_terms terms prec target_prec = (None, None)) \<and>
        (term_errors terms \<noteq> [] \<and> sum_man \<noteq> 0 \<longrightarrow>
           add_terms terms prec target_prec =
             (Some (normalize_mpf (if sum_man < 0 then 1 else 0) \<bar>sum_man\<bar> sum_exp
                      (bitcount \<bar>sum_man\<bar>) target_prec),
              Some (sum_exp + bitcount \<bar>sum_man\<bar> - Max (set (term_errors terms)))) \<and>
           (1 \<le> target_prec \<longrightarrow>
              \<bar>mpf_value (normalize_mpf (if sum_man < 0 then 1 else 0) \<bar>sum_man\<bar> sum_exp
                           (bitcount \<bar>sum_man\<bar>) target_prec)
                 - real_of_int sum_man * 2 powr real_of_int sum_exp\<bar> * 2 ^ nat target_prec
              \<le> \<bar>real_of_int sum_man * 2 powr real_of_int sum_exp\<bar>))))"
proof (intro conjI allI impI)
  fix v accuracy
  assume "terms = [(Some v, accuracy)]"
  then show "add_terms terms prec target_prec = (Some v, Some accuracy)"
    by (simp add: add_terms_def)
next
  assume len: "length terms \<noteq> 1"
  obtain sum_man sum_exp absolute_error
    where loop: "add_terms_loop prec terms = (sum_man, sum_exp, absolute_error)"
    by (cases "add_terms_loop prec terms") auto
  have ae: "absolute_error =
      (if term_errors terms = [] then MINUS_INF else Fin (Max (set (term_errors terms))))"
    using add_terms_loop_error[of prec terms] loop by simp
  have sum: "terms_kept prec terms \<longrightarrow>
      real_of_int sum_man * 2 powr real_of_int sum_exp = terms_sum terms"
    using add_terms_loop_sum[OF _ loop] by blast
  have shape: "add_terms terms prec target_prec =
        (case add_terms_loop prec terms of
           (sum_man, sum_exp, Fin absolute_error) \<Rightarrow>
             if sum_man = 0 then (Some (fshift fone absolute_error), Some (- 1))
             else
               let sum_sign = (if sum_man < 0 then 1 else 0);
                   sum_man' = (if sum_man < 0 then - sum_man else sum_man);
                   sum_bc = bitcount sum_man';
                   sum_accuracy = sum_exp + sum_bc - absolute_error
               in (Some (normalize_mpf sum_sign sum_man' sum_exp sum_bc target_prec), Some sum_accuracy)
         | (sum_man, sum_exp, _) \<Rightarrow> (None, None))"
    using len by (auto simp: add_terms_def split: list.splits)
  have empty: "term_errors terms = [] \<longrightarrow> add_terms terms prec target_prec = (None, None)"
    using ae loop by (simp add: shape)
  have nonzero: "term_errors terms \<noteq> [] \<and> sum_man \<noteq> 0 \<longrightarrow>
           add_terms terms prec target_prec =
             (Some (normalize_mpf (if sum_man < 0 then 1 else 0) \<bar>sum_man\<bar> sum_exp
                      (bitcount \<bar>sum_man\<bar>) target_prec),
              Some (sum_exp + bitcount \<bar>sum_man\<bar> - Max (set (term_errors terms))))"
    using ae loop by (simp add: shape Let_def abs_if)
  have rounded: "sum_man \<noteq> 0 \<and> 1 \<le> target_prec \<longrightarrow>
              \<bar>mpf_value (normalize_mpf (if sum_man < 0 then 1 else 0) \<bar>sum_man\<bar> sum_exp
                           (bitcount \<bar>sum_man\<bar>) target_prec)
                 - real_of_int sum_man * 2 powr real_of_int sum_exp\<bar> * 2 ^ nat target_prec
              \<le> \<bar>real_of_int sum_man * 2 powr real_of_int sum_exp\<bar>"
    using normalize_mpf_rounds[of sum_man target_prec sum_exp] by blast
  show "case add_terms_loop prec terms of (sum_man, sum_exp, absolute_error) \<Rightarrow>
        absolute_error =
          (if term_errors terms = [] then MINUS_INF else Fin (Max (set (term_errors terms)))) \<and>
        (terms_kept prec terms \<longrightarrow>
           real_of_int sum_man * 2 powr real_of_int sum_exp = terms_sum terms) \<and>
        (term_errors terms = [] \<longrightarrow> add_terms terms prec target_prec = (None, None)) \<and>
        (term_errors terms \<noteq> [] \<and> sum_man \<noteq> 0 \<longrightarrow>
           add_terms terms prec target_prec =
             (Some (normalize_mpf (if sum_man < 0 then 1 else 0) \<bar>sum_man\<bar> sum_exp
                      (bitcount \<bar>sum_man\<bar>) target_prec),
              Some (sum_exp + bitcount \<bar>sum_man\<bar> - Max (set (term_errors terms)))) \<and>
           (1 \<le> target_prec \<longrightarrow>
              \<bar>mpf_value (normalize_mpf (if sum_man < 0 then 1 else 0) \<bar>sum_man\<bar> sum_exp
                           (bitcount \<bar>sum_man\<bar>) target_prec)
                 - real_of_int sum_man * 2 powr real_of_int sum_exp\<bar> * 2 ^ nat target_prec
              \<le> \<bar>real_of_int sum_man * 2 powr real_of_int sum_exp\<bar>))"
    unfolding loop prod.case
    using ae sum empty nonzero rounded by blast
qed

lemma bitcount_2796203: "bitcount 2796203 = 22"
  unfolding bitcount_def by code_simp

lemma bitcount_699051: "bitcount 699051 = 20"
  unfolding bitcount_def by code_simp

lemma normalize_699051: "normalize_mpf 0 699051 (- 21) 20 10 = (0, 683, - 11, 10)"
  by (simp add: normalize_mpf_def round_nearest_shift_def Let_def)

theorem add_terms_spec_witness:
  "add_terms [(Some (0, 699051, - 21, 20), 20), (Some (0, 1, 0, 1), 20)] 10 10
     = (Some (normalize_mpf 0 2796203 (- 21) 22 10), Some 20) \<and>
   terms_sum [(Some (0, 699051, - 21, 20), 20), (Some (0, 1, 0, 1), 20)]
     = real_of_int 2796203 * 2 powr real_of_int (- 21) \<and>
   \<bar>mpf_value (normalize_mpf 0 2796203 (- 21) 22 10)
      - terms_sum [(Some (0, 699051, - 21, 20), 20), (Some (0, 1, 0, 1), 20)]\<bar> * 2 ^ nat 10
     \<le> \<bar>terms_sum [(Some (0, 699051, - 21, 20), 20), (Some (0, 1, 0, 1), 20)]\<bar> \<and>
   add_terms [(Some (0, 699051, - 21, 20), 20)] 10 10 = (Some (0, 699051, - 21, 20), Some 20) \<and>
   add_terms [(None, 20), (None, 7)] 10 10 = (None, None)"
proof -
  note two = add_terms_spec[of "[(Some (0, 699051, - 21, 20), 20), (Some (0, 1, 0, 1), 20)]" 10 10]
  have r: "add_terms [(Some (0, 699051, - 21, 20), 20), (Some (0, 1, 0, 1), 20)] 10 10
     = (Some (normalize_mpf 0 2796203 (- 21) 22 10), Some 20)"
    using two
    by (simp add: add_terms_loop_def term_errors_def terms_kept_def term_exponents_def bitcount_2796203)
  have s: "real_of_int 2796203 * 2 powr real_of_int (- 21)
     = terms_sum [(Some (0, 699051, - 21, 20), 20), (Some (0, 1, 0, 1), 20)]"
    using two
    by (simp add: add_terms_loop_def term_errors_def terms_kept_def term_exponents_def bitcount_2796203)
  have b: "\<bar>mpf_value (normalize_mpf 0 2796203 (- 21) 22 10)
      - real_of_int 2796203 * 2 powr real_of_int (- 21)\<bar> * 2 ^ nat 10
     \<le> \<bar>real_of_int 2796203 * 2 powr real_of_int (- 21)\<bar>"
    using two
    by (simp add: add_terms_loop_def term_errors_def bitcount_2796203)
  have one: "add_terms [(Some (0, 699051, - 21, 20), 20)] 10 10 = (Some (0, 699051, - 21, 20), Some 20)"
    using add_terms_spec[of "[(Some (0, 699051, - 21, 20), 20)]" 10 10] by simp
  have none: "add_terms [(None, 20), (None, 7)] 10 10 = (None, None)"
    using add_terms_spec[of "[(None, 20), (None, 7)]" 10 10]
    by (simp add: add_terms_loop_def term_errors_def)
  from r s[symmetric] b one none show ?thesis unfolding s by (intro conjI)
qed

text \<open>
  C2 as stated fails on a one-term list: the term, 1/3 at 20 bits, has the aligned sum
  \<open>699051\<close>, and it comes back with all its 20 bits where the sum rounded to
  \<open>target_prec = 10\<close> bits is \<open>683 * 2^-11\<close>.
\<close>

theorem add_terms_spec_counterexample:
  "fst (add_terms_loop 10 [(Some (0, 699051, - 21, 20), 20)]) = 699051 \<and>
   fst (add_terms [(Some (0, 699051, - 21, 20), 20)] 10 10) = Some (0, 699051, - 21, 20) \<and>
   normalize_mpf 0 699051 (- 21) (bitcount 699051) 10 = (0, 683, - 11, 10) \<and>
   fst (add_terms [(Some (0, 699051, - 21, 20), 20)] 10 10)
     \<noteq> Some (normalize_mpf 0 699051 (- 21) (bitcount 699051) 10)"
  by (simp add: add_terms_loop_def add_terms_def bitcount_699051 normalize_699051)

lemma cancel_loop:
  assumes "0 \<le> prec" and "sign = 0 \<or> sign = 1"
  shows "add_terms_loop prec [(Some (sign, man, expn, bc), a1), (Some (fneg (sign, man, expn, bc)), a2)]
         = (0, (if expn \<ge> 0 \<and> expn \<le> 4 * prec then 0 else if expn < 0 \<and> - expn > 4 * prec then 0 else expn),
            Fin (max (bc + expn - a1) (bc + expn - a2)))"
  using assms by (auto simp: add_terms_loop_def Let_def max_def)


text \<open>
  C3. For a working precision \<open>prec \<ge> 0\<close> and a value \<open>x\<close> that is present, the two-term
  list of \<open>x\<close> and its negation sums to the scaled zero \<open>2 ^ absolute_error\<close> with the
  accuracy \<open>-1\<close>, where \<open>absolute_error\<close> is the larger of the two terms' absolute
  errors; when \<open>x\<close> is an exact zero, \<open>evalf_add\<close> passes no term and the sum is the
  exact zero. No other value is returned.
\<close>

theorem add_terms_cancel:
  assumes "0 \<le> prec" and "sign = 0 \<or> sign = 1"
  shows "add_terms [(Some (sign, man, expn, bc), a1), (Some (fneg (sign, man, expn, bc)), a2)]
           prec target_prec
         = (Some (0, 1, max (bc + expn - a1) (bc + expn - a2), 1), Some (- 1)) \<and>
         add_terms [] prec target_prec = (None, None)"
  using cancel_loop[OF assms, of man expn bc a1 a2]
  by (simp add: add_terms_def fone_def add_terms_loop_def del: fneg.simps add_terms_step.simps)

theorem add_terms_cancel_witness:
  "add_terms [(Some (0, 699051, - 21, 20), 20), (Some (1, 699051, - 21, 20), 20)] 10 10
     = (Some (0, 1, - 21, 1), Some (- 1))"
  using add_terms_cancel[of 10 0 699051 "- 21" 20 20 20 10] by simp



section \<open>Properties of the power evaluator\<close>

text \<open>
  C9. When the exponent of \<open>Pow(base, exp)\<close> is the exact integer zero, \<open>evalf_pow\<close> returns
  the value one with the accuracy \<open>prec\<close>, whatever the evaluation of the base would do:
  the base is not evaluated, so the result is the same when its evaluation raises, does
  not return, or gives zero.
\<close>

theorem evalf_pow_zero_exponent:
  "integer_value ex = Some 0 \<Longrightarrow>
     evalf_pow B ev base ex prec options = ok (Some fone, None, Some prec, None)"
  by (simp add: evalf_pow_def evalf_pow_int_def)

theorem evalf_pow_zero_exponent_witness:
  "integer_value C_Zero = Some 0 \<and>
   evalf_pow sample_backend (\<lambda>x prec options. None) (C_atan C_ImaginaryUnit) C_Zero 53 default_options
     = ok (Some fone, None, Some 53, None)"
  using evalf_pow_zero_exponent[of C_Zero sample_backend "\<lambda>x prec options. None"
      "C_atan C_ImaginaryUnit" 53 default_options]
  by simp


section \<open>Properties of the entry point\<close>

lemma part_precision_ge_1: "1 \<le> part_precision prec acc"
  by (cases acc) simp_all


text \<open>
  C10. When \<open>strict\<close> is off and the table entry of the expression returns a result at
  \<open>prec + 4\<close> bits (chopped, if \<open>chop\<close> is on), \<open>Basic_evalf\<close> returns every part that is
  present as a number with the precision \<open>max(min(prec, accuracy), 1)\<close>, which is at least
  1 whatever the accuracy is, and 1 when the accuracy is \<^verbatim>\<open>None\<close>; no error is raised.
\<close>

theorem Basic_evalf_part_precision:
  assumes "evalf_table B ev x (prec + 4)
             (options0\<lparr>maxprec := Some (case maxprec options0 of Some m \<Rightarrow> m
                                           | None \<Rightarrow> max prec DEFAULT_MAXPREC)\<rparr>) = ok r0"
    and "(if chop options0 then chop_parts r0 (prec + 4) else Inr r0) = Inr (re, im, re_acc, im_acc)"
    and "\<not> strict options0"
  shows "Basic_evalf (evalf_body B ev) eval_evalf x prec options0 =
           ok (Number
                 (case re of None \<Rightarrow> S_Zero | Some r \<Rightarrow> Real_new r (part_precision prec re_acc))
                 (case im of None \<Rightarrow> None | Some i \<Rightarrow> Some (Real_new i (part_precision prec im_acc)))) \<and>
         (\<forall>acc. part_precision prec (Some acc) = max (min prec acc) 1) \<and>
         part_precision prec None = 1 \<and>
         1 \<le> part_precision prec re_acc \<and> 1 \<le> part_precision prec im_acc"
proof -
  let ?options = "options0\<lparr>maxprec := Some (case maxprec options0 of Some m \<Rightarrow> m
                                           | None \<Rightarrow> max prec DEFAULT_MAXPREC)\<rparr>"
  have post: "evalf_post r0 (prec + 4) ?options = Inr (re, im, re_acc, im_acc)"
    using assms(2,3) by (simp add: evalf_post_def)
  have "evalf_body B ev x (prec + 4) ?options = ok (re, im, re_acc, im_acc)"
    using assms(1) post by (simp add: evalf_body_def ok_def lift_def)
  then have "Basic_evalf (evalf_body B ev) eval_evalf x prec options0 =
      ok (wrap_result (re, im, re_acc, im_acc) prec)"
    by (simp add: Basic_evalf_def ok_def)
  then show ?thesis
    using part_precision_ge_1[of prec re_acc] part_precision_ge_1[of prec im_acc] by simp
qed

lemma sample_sum:
  "evalf_table sample_backend (evalf sample_backend 1) (C_Add [C_Integer 5, C_Integer (- 5)]) 57
     \<lparr>maxprec = Some 333, chop = False, strict = False\<rparr>
   = ok (Some (0, 1, - 412, 1), None, Some (- 1), None)"
  by code_simp

theorem Basic_evalf_part_precision_witness:
  "Basic_evalf (evalf_body sample_backend (evalf sample_backend 1)) (\<lambda>x prec. None)
     (C_Add [C_Integer 5, C_Integer (- 5)]) 53 default_options
   = ok (Number (Real_new (0, 1, - 412, 1) 1) None)"
  using Basic_evalf_part_precision[of sample_backend "evalf sample_backend 1"
      "C_Add [C_Integer 5, C_Integer (- 5)]" 53 default_options
      "(Some (0, 1, - 412, 1), None, Some (- 1), None)" "Some (0, 1, - 412, 1)" None "Some (- 1)" None
      "\<lambda>x prec. None"] sample_sum
  by (simp add: default_options_def DEFAULT_MAXPREC_def)



section \<open>Accuracies reported by the evaluators\<close>

lemma bind_r_ok_iff:
  "bind_r m f = Some (Inr y) \<longleftrightarrow> (\<exists>x. m = Some (Inr x) \<and> f x = Some (Inr y))"
proof (cases m)
  case None
  then show ?thesis by simp
next
  case (Some s)
  then show ?thesis by (cases s) simp_all
qed

lemma finalize_complex_accuracy:
  "finalize_complex a b prec = Inr (re, im, re_acc, im_acc) \<Longrightarrow>
     re \<noteq> None \<and> im \<noteq> None \<and> (re_acc = Some prec \<or> im_acc = Some prec)"
  by (auto simp: finalize_complex_def Let_def simp del: not_None_eq split_paired_Ex split: if_splits)

lemma evalf_atan_result:
  assumes "evalf_atan B ev arg prec options = ok (re, im, re_acc, im_acc)"
  shows "re_acc = Some prec \<and> im = None \<and>
         (\<exists>x xacc iacc. ev arg (prec + 5) options = ok (Some x, None, xacc, iacc) \<and>
            re = Some (fatan B x prec))"
  using assms
  by (auto simp: evalf_atan_def ok_def raise_def bind_r_ok_iff
        simp del: not_None_eq split_paired_Ex split_paired_All split: if_splits option.splits)

lemma evalf_pow_int_result:
  assumes "evalf_pow_int B ev base p prec options = ok (re, im, re_acc, im_acc)"
  shows "(re \<noteq> None \<and> re_acc = Some prec) \<or> (im \<noteq> None \<and> im_acc = Some prec)"
proof (cases "p = 0")
  case True
  with assms show ?thesis by (auto simp: evalf_pow_int_def ok_def simp del: not_None_eq)
next
  case False
  with assms obtain bre bim bre_acc bim_acc where
    r: "(case (bre, bim) of
               (Some r, None) \<Rightarrow> ok (Some (fpowi B r p prec), None, Some prec, None)
             | (None, Some m) \<Rightarrow>
                 let z = fpowi B m p prec; c = p mod 4
                 in if c = 0 then ok (Some z, None, Some prec, None)
                    else if c = 1 then ok (None, Some z, None, Some prec)
                    else if c = 2 then ok (Some (fneg z), None, Some prec, None)
                    else ok (None, Some (fneg z), None, Some prec)
             | (Some r, Some m) \<Rightarrow>
                 (case mpc_pow_int B (r, m) p (prec + (bitcount \<bar>p\<bar> - 1)) of
                    (re', im') \<Rightarrow> lift (finalize_complex re' im' prec))
             | (None, None) \<Rightarrow> raise TypeError) = Some (Inr (re, im, re_acc, im_acc))"
    by (auto simp: evalf_pow_int_def ok_def bind_r_ok_iff Let_def)
  show ?thesis
  proof (cases bre)
    case None
    note bre = this
    show ?thesis
    proof (cases bim)
      case None
      with bre r show ?thesis by (simp add: raise_def)
    next
      case (Some m)
      with bre r show ?thesis
        by (auto simp: ok_def Let_def simp del: not_None_eq split: if_splits)
    qed
  next
    case (Some rr)
    note bre = this
    show ?thesis
    proof (cases bim)
      case None
      with bre r show ?thesis by (auto simp: ok_def simp del: not_None_eq)
    next
      case (Some m)
      obtain re' im' where mp: "mpc_pow_int B (rr, m) p (prec + (bitcount \<bar>p\<bar> - 1)) = (re', im')"
        by (cases "mpc_pow_int B (rr, m) p (prec + (bitcount \<bar>p\<bar> - 1))")
      with bre Some r have "finalize_complex re' im' prec = Inr (re, im, re_acc, im_acc)"
        by (simp add: lift_def)
      from finalize_complex_accuracy[OF this] show ?thesis by auto
    qed
  qed
qed


lemma finalize_complex_dominant:
  "finalize_complex a b prec = Inr (Some r, Some i, re_acc, im_acc) \<Longrightarrow>
     (if mpf_size i < mpf_size r then re_acc = Some prec else im_acc = Some prec)"
  by (auto simp: finalize_complex_def Let_def split: if_splits)

lemma evalf_pow_int_dominant:
  assumes "evalf_pow_int B ev base p prec options = ok (Some r, Some i, re_acc, im_acc)"
  shows "if mpf_size i < mpf_size r then re_acc = Some prec else im_acc = Some prec"
proof (cases "p = 0")
  case True
  with assms show ?thesis by (simp add: evalf_pow_int_def ok_def)
next
  case False
  with assms obtain bre bim bre_acc bim_acc where
    r: "(case (bre, bim) of
               (Some r, None) \<Rightarrow> ok (Some (fpowi B r p prec), None, Some prec, None)
             | (None, Some m) \<Rightarrow>
                 let z = fpowi B m p prec; c = p mod 4
                 in if c = 0 then ok (Some z, None, Some prec, None)
                    else if c = 1 then ok (None, Some z, None, Some prec)
                    else if c = 2 then ok (Some (fneg z), None, Some prec, None)
                    else ok (None, Some (fneg z), None, Some prec)
             | (Some r, Some m) \<Rightarrow>
                 (case mpc_pow_int B (r, m) p (prec + (bitcount \<bar>p\<bar> - 1)) of
                    (re', im') \<Rightarrow> lift (finalize_complex re' im' prec))
             | (None, None) \<Rightarrow> raise TypeError) = Some (Inr (Some r, Some i, re_acc, im_acc))"
    by (auto simp: evalf_pow_int_def ok_def bind_r_ok_iff Let_def)
  show ?thesis
  proof (cases bre)
    case None
    note bre = this
    show ?thesis
    proof (cases bim)
      case None
      with bre r show ?thesis by (simp add: raise_def)
    next
      case (Some m)
      with bre r show ?thesis
        by (auto simp: ok_def Let_def split: if_splits)
    qed
  next
    case (Some rr)
    note bre = this
    show ?thesis
    proof (cases bim)
      case None
      with bre r show ?thesis by (auto simp: ok_def)
    next
      case (Some m)
      obtain re' im' where mp: "mpc_pow_int B (rr, m) p (prec + (bitcount \<bar>p\<bar> - 1)) = (re', im')"
        by (cases "mpc_pow_int B (rr, m) p (prec + (bitcount \<bar>p\<bar> - 1))")
      with bre Some r have "finalize_complex re' im' prec = Inr (Some r, Some i, re_acc, im_acc)"
        by (simp add: lift_def)
      from finalize_complex_dominant[OF this] show ?thesis .
    qed
  qed
qed


text \<open>
  C1 (amended). Whenever \<open>evalf_atan\<close> returns a value, its accuracy is the target
  precision \<open>prec\<close>, whatever accuracy the evaluation of the argument reported; and
  whenever \<open>evalf_pow\<close> with an integer exponent returns a value, a part that is present
  has the accuracy \<open>prec\<close>: when both parts are present (a complex base), it is the
  dominant part, the real part if its size is the larger one and the imaginary part
  otherwise. Neither looks at the accuracy of its input: the source assumes full accuracy
  in input.
\<close>

theorem reported_accuracy_is_target:
  "(evalf_atan B ev arg prec options = ok (re, im, re_acc, im_acc) \<longrightarrow>
      re_acc = Some prec \<and> im = None \<and>
      (\<exists>x xacc iacc. ev arg (prec + 5) options = ok (Some x, None, xacc, iacc) \<and>
         re = Some (fatan B x prec))) \<and>
   (integer_value ex = Some p \<and> evalf_pow B ev base ex prec options = ok (re', im', re_acc', im_acc') \<longrightarrow>
      ((re' \<noteq> None \<and> re_acc' = Some prec) \<or> (im' \<noteq> None \<and> im_acc' = Some prec)) \<and>
      (\<forall>r i. re' = Some r \<and> im' = Some i \<longrightarrow>
         (if mpf_size i < mpf_size r then re_acc' = Some prec else im_acc' = Some prec)))"
proof (intro conjI impI allI)
  assume "evalf_atan B ev arg prec options = ok (re, im, re_acc, im_acc)"
  from evalf_atan_result[OF this]
  show "re_acc = Some prec" and "im = None"
    and "\<exists>x xacc iacc. ev arg (prec + 5) options = ok (Some x, None, xacc, iacc) \<and>
           re = Some (fatan B x prec)"
    by blast+
next
  assume "integer_value ex = Some p \<and>
    evalf_pow B ev base ex prec options = ok (re', im', re_acc', im_acc')"
  then have "evalf_pow_int B ev base p prec options = ok (re', im', re_acc', im_acc')"
    by (auto simp: evalf_pow_def)
  from evalf_pow_int_result[OF this]
  show "(re' \<noteq> None \<and> re_acc' = Some prec) \<or> (im' \<noteq> None \<and> im_acc' = Some prec)" .
next
  fix r i
  assume "integer_value ex = Some p \<and>
    evalf_pow B ev base ex prec options = ok (re', im', re_acc', im_acc')"
    and "re' = Some r \<and> im' = Some i"
  then have "evalf_pow_int B ev base p prec options = ok (Some r, Some i, re_acc', im_acc')"
    by (auto simp: evalf_pow_def)
  from evalf_pow_int_dominant[OF this]
  show "if mpf_size i < mpf_size r then re_acc' = Some prec else im_acc' = Some prec" .
qed

lemma sample_sum_58:
  "evalf sample_backend 2 (C_Add [C_Integer 5, C_Integer (- 5)]) 58 default_options
     = ok (Some (0, 1, - 419, 1), None, Some (- 1), None)"
  by code_simp

lemma sample_atan:
  "evalf_atan sample_backend (evalf sample_backend 2) (C_Add [C_Integer 5, C_Integer (- 5)]) 53
     default_options
   = ok (Some (fatan sample_backend (0, 1, - 419, 1) 53), None, Some 53, None)"
  by code_simp

lemma sample_sum_59:
  "evalf sample_backend 2 (C_Add [C_Integer 5, C_Integer (- 5)]) 59 default_options
     = ok (Some (0, 1, - 426, 1), None, Some (- 1), None)"
  by code_simp

lemma sample_pow:
  "evalf_pow sample_backend (evalf sample_backend 2) (C_Add [C_Integer 5, C_Integer (- 5)])
     (C_Integer 2) 53 default_options
   = ok (Some (fpowi sample_backend (0, 1, - 426, 1) 2 53), None, Some 53, None)"
  by code_simp

lemma sample_pow_complex:
  "evalf_pow sample_backend (evalf sample_backend 2) (C_Add [C_Integer 5, C_ImaginaryUnit])
     (C_Integer 2) 53 default_options
   = ok (Some fone, Some fone, Some 53, Some 53)"
  by code_simp

theorem reported_accuracy_is_target_witness:
  "evalf_atan sample_backend (evalf sample_backend 2) (C_Add [C_Integer 5, C_Integer (- 5)]) 53
     default_options
   = ok (Some (fatan sample_backend (0, 1, - 419, 1) 53), None, Some 53, None) \<and>
   integer_value (C_Integer 2) = Some 2 \<and>
   evalf_pow sample_backend (evalf sample_backend 2) (C_Add [C_Integer 5, C_Integer (- 5)])
     (C_Integer 2) 53 default_options
   = ok (Some (fpowi sample_backend (0, 1, - 426, 1) 2 53), None, Some 53, None) \<and>
   evalf_pow sample_backend (evalf sample_backend 2) (C_Add [C_Integer 5, C_ImaginaryUnit])
     (C_Integer 2) 53 default_options
   = ok (Some fone, Some fone, Some 53, Some 53) \<and>
   \<not> mpf_size fone < mpf_size fone"
  using reported_accuracy_is_target[of sample_backend "evalf sample_backend 2"
      "C_Add [C_Integer 5, C_Integer (- 5)]" 53 default_options
      "Some (fatan sample_backend (0, 1, - 419, 1) 53)" None "Some 53" None
      "C_Integer 2" 2 "C_Add [C_Integer 5, C_Integer (- 5)]"
      "Some (fpowi sample_backend (0, 1, - 426, 1) 2 53)" None "Some 53" None]
    reported_accuracy_is_target[of sample_backend "evalf sample_backend 2"
      "C_Add [C_Integer 5, C_Integer (- 5)]" 53 default_options
      "Some (fatan sample_backend (0, 1, - 419, 1) 53)" None "Some 53" None
      "C_Integer 2" 2 "C_Add [C_Integer 5, C_ImaginaryUnit]"
      "Some fone" "Some fone" "Some 53" "Some 53"]
    sample_atan sample_pow sample_pow_complex sample_sum_58
  by (simp add: fone_def del: not_None_eq split_paired_Ex)


text \<open>
  C1 as stated fails: the sum of 5 and -5, left unevaluated, is a scaled zero of accuracy
  \<open>-1\<close> at 58 and at 59 bits, and both its arctangent and its square at 53 bits are
  reported with the accuracy 53.
\<close>

theorem reported_accuracy_counterexample:
  "evalf sample_backend 2 (C_Add [C_Integer 5, C_Integer (- 5)]) (53 + 5) default_options
     = ok (Some (0, 1, - 419, 1), None, Some (- 1), None) \<and>
   evalf_atan sample_backend (evalf sample_backend 2) (C_Add [C_Integer 5, C_Integer (- 5)]) 53
     default_options
     = ok (Some (fatan sample_backend (0, 1, - 419, 1) 53), None, Some 53, None) \<and>
   evalf sample_backend 2 (C_Add [C_Integer 5, C_Integer (- 5)]) (53 + 1 + 5) default_options
     = ok (Some (0, 1, - 426, 1), None, Some (- 1), None) \<and>
   evalf_pow sample_backend (evalf sample_backend 2) (C_Add [C_Integer 5, C_Integer (- 5)])
     (C_Integer 2) 53 default_options
     = ok (Some (fpowi sample_backend (0, 1, - 426, 1) 2 53), None, Some 53, None) \<and>
   \<not> (53 \<le> (- 1 :: int))"
  using sample_sum_58 sample_atan sample_sum_59 sample_pow by simp


section \<open>Properties of the multiplication evaluator\<close>

text \<open>
  C5, at the product of \<open>1 + i\<close>, whose imaginary part is accurate to 5 bits, and \<open>1 + i\<close>:
  \<open>cmul\<close> reports the imaginary part \<open>ad + bc = 2\<close> with the accuracy 51, where the
  cross term \<open>bc\<close> with the minimum of the accuracies of \<open>b\<close> and \<open>c\<close>, which is 5, gives
  the accuracy 6. The second list of \<open>cmul\<close> carries \<open>Cacc\<close> for the term \<open>D\<close>.
\<close>

theorem cmul_last_term_accuracy:
  "cmul (fone, 50) (fone, 5) (fone, 50) (fone, 50) 60 53
     = (Some (0, 1, - 4, 1), Some (0, 1, 1, 1), Some (- 1), Some 51) \<and>
   add_terms [(Some (fmul fone fone 60), min 50 50), (Some (fmul fone fone 60), min 5 50)] 60 53
     = (Some (0, 1, 1, 1), Some 6)"
  by code_simp



section \<open>Properties of the sine and cosine evaluator\<close>

lemma bind_r_case:
  "bind_r m f = (case m of None \<Rightarrow> None | Some (Inl e) \<Rightarrow> Some (Inl e) | Some (Inr x) \<Rightarrow> f x)"
proof (cases m)
  case None
  then show ?thesis by simp
next
  case (Some s)
  then show ?thesis by (cases s) simp_all
qed

lemma evalf_trig_loop_step:
  assumes "fastlog (Some (func r prec)) = Fin ysize"
  shows "evalf_trig_loop func ev arg prec options xsize (Some r) xprec =
           (if prec \<le> (xprec - xsize) - (- ysize)
            then ok (Some (func r prec), None, Some prec, None)
            else if xprec > get_maxprec options
            then ok (Some (func r prec), None, Some ((xprec - xsize) - (- ysize)), None)
            else bind_r (ev arg (xprec + (- ysize)) options)
                   (\<lambda>(re', im', re_accuracy, im_accuracy).
                      evalf_trig_loop func ev arg prec options xsize re' (xprec + (- ysize))))"
  by (subst evalf_trig_loop.simps)
     (simp add: assms ok_def bind_r_case split: option.split sum.split prod.split)

lemma evalf_trig_start:
  assumes "v = C_sin arg \<and> func = fsin B \<or> v = C_cos arg \<and> func = fcos B"
    and "ev arg (prec + 20) options = ok (Some r, None, ra, ia)"
    and "fastlog (Some r) = Fin xsize"
  shows "evalf_trig B ev v prec options =
           (if xsize < 1 then ok (Some (func r prec), None, Some prec, None)
            else if xsize \<ge> 10
            then bind_r (ev arg (prec + xsize) options)
                   (\<lambda>(re', im', re_accuracy, im_accuracy).
                      evalf_trig_loop func ev arg prec options xsize re' (prec + xsize))
            else evalf_trig_loop func ev arg prec options xsize (Some r) (prec + 20))"
  using assms by (auto simp: evalf_trig_def ok_def)


text \<open>
  C8 (amended). For \<open>sin\<close> or \<open>cos\<close> of an argument whose value \<open>r\<close> at \<open>prec + 20\<close> bits is
  real, with the magnitude \<open>xsize\<close>: when \<open>xsize < 1\<close> the result is \<open>func(r, prec)\<close> with
  the accuracy \<open>prec\<close>; when \<open>xsize \<ge> 10\<close> the argument is evaluated again at the
  working precision \<open>prec + xsize\<close> before the loop; and each pass of the loop, with
  \<open>y = func(x, prec)\<close> and \<open>gap = -fastlog(y)\<close>, returns \<open>y\<close> with the accuracy \<open>prec\<close> when
  \<open>(xprec - xsize) - gap\<close> reaches \<open>prec\<close>, returns \<open>y\<close> with the accuracy
  \<open>(xprec - xsize) - gap\<close> when it does not and \<open>xprec\<close> is above the ceiling \<open>maxprec\<close>,
  and otherwise evaluates the argument at \<open>xprec + gap\<close> and goes on with that working
  precision.
\<close>

theorem evalf_trig_policy:
  assumes "v = C_sin arg \<and> func = fsin B \<or> v = C_cos arg \<and> func = fcos B"
    and "ev arg (prec + 20) options = ok (Some r, None, ra, ia)"
    and "fastlog (Some r) = Fin xsize"
  shows "(xsize < 1 \<longrightarrow>
            evalf_trig B ev v prec options = ok (Some (func r prec), None, Some prec, None)) \<and>
         (1 \<le> xsize \<and> xsize < 10 \<longrightarrow>
            evalf_trig B ev v prec options =
              evalf_trig_loop func ev arg prec options xsize (Some r) (prec + 20)) \<and>
         (10 \<le> xsize \<longrightarrow>
            evalf_trig B ev v prec options =
              bind_r (ev arg (prec + xsize) options)
                (\<lambda>(re', im', re_accuracy, im_accuracy).
                   evalf_trig_loop func ev arg prec options xsize re' (prec + xsize))) \<and>
         (\<forall>x xprec ysize. fastlog (Some (func x prec)) = Fin ysize \<longrightarrow>
            evalf_trig_loop func ev arg prec options xsize (Some x) xprec =
              (if prec \<le> (xprec - xsize) - (- ysize)
               then ok (Some (func x prec), None, Some prec, None)
               else if xprec > get_maxprec options
               then ok (Some (func x prec), None, Some ((xprec - xsize) - (- ysize)), None)
               else bind_r (ev arg (xprec + (- ysize)) options)
                      (\<lambda>(re', im', re_accuracy, im_accuracy).
                         evalf_trig_loop func ev arg prec options xsize re' (xprec + (- ysize)))))"
  using evalf_trig_start[of v arg func B ev prec options r ra ia xsize] assms
    evalf_trig_loop_step[of func _ prec _ ev arg options xsize]
  by simp

lemma root_arg_77:
  "evalf root_backend 1 (C_Rational 355 113) (57 + 20) default_options
     = ok (Some (0, 118686024879201702715899, - 75, 77), None, Some 77, None)"
  by code_simp

lemma root_arg_77_ceiling:
  "evalf root_backend 1 (C_Rational 355 113) (57 + 20) (default_options\<lparr>maxprec := Some 66\<rparr>)
     = ok (Some (0, 118686024879201702715899, - 75, 77), None, Some 77, None)"
  by code_simp

lemma root_size: "fastlog (Some (0, 118686024879201702715899, - 75, 77)) = Fin 2"
  by (simp add: fzero_def)

lemma root_trig_ceiling:
  "evalf_trig root_backend (evalf root_backend 1) (C_sin (C_Rational 355 113)) 57
     (default_options\<lparr>maxprec := Some 66\<rparr>)
   = ok (Some (1, 1, - 22, 1), None, Some 54, None)"
  by code_simp

theorem evalf_trig_policy_witness:
  "evalf root_backend 1 (C_Rational 355 113) (57 + 20) default_options
     = ok (Some (0, 118686024879201702715899, - 75, 77), None, Some 77, None) \<and>
   fastlog (Some (0, 118686024879201702715899, - 75, 77)) = Fin 2 \<and>
   evalf_trig root_backend (evalf root_backend 1) (C_sin (C_Rational 355 113)) 57 default_options
     = evalf_trig_loop (fsin root_backend) (evalf root_backend 1) (C_Rational 355 113) 57
         default_options 2 (Some (0, 118686024879201702715899, - 75, 77)) (57 + 20)"
  using evalf_trig_policy[of "C_sin (C_Rational 355 113)" "C_Rational 355 113" "fsin root_backend"
      root_backend "evalf root_backend 1" 57 default_options
      "(0, 118686024879201702715899, - 75, 77)" "Some 77" None 2]
    root_arg_77 root_size
  by simp


text \<open>
  C8 as stated fails above the ceiling: with \<open>maxprec = 66\<close> bits, the sine of 355/113 at
  57 bits has \<open>(xprec - xsize) - gap = 54\<close>, short of the target, and it is returned with
  the accuracy 54; the working precision is not enlarged and nothing is tried again.
\<close>

theorem evalf_trig_policy_counterexample:
  "evalf root_backend 1 (C_Rational 355 113) (57 + 20) (default_options\<lparr>maxprec := Some 66\<rparr>)
     = ok (Some (0, 118686024879201702715899, - 75, 77), None, Some 77, None) \<and>
   fastlog (Some (0, 118686024879201702715899, - 75, 77)) = Fin 2 \<and>
   fastlog (Some (fsin root_backend (0, 118686024879201702715899, - 75, 77) 57)) = Fin (- 21) \<and>
   ((57 + 20) - 2) - (- (- 21)) < (57 :: int) \<and>
   evalf_trig root_backend (evalf root_backend 1) (C_sin (C_Rational 355 113)) 57
     (default_options\<lparr>maxprec := Some 66\<rparr>)
   = ok (Some (1, 1, - 22, 1), None, Some 54, None)"
  using root_arg_77_ceiling root_size root_trig_ceiling
  by (simp add: root_backend_def fzero_def)



section \<open>The retry loops and the ceiling\<close>

lemma get_complex_part_loop_stuck_aux:
  assumes "get_complex_part_loop ev expr no prec options workprec i = Some y"
  shows "(\<forall>w. w0 \<le> w \<longrightarrow> stuck_at ev expr no prec options w) \<longrightarrow> w0 \<le> workprec \<longrightarrow> False"
proof (rule get_complex_part_loop.raw_induct
    [where P = "\<lambda>ev' expr' no' prec' options' workprec' i' y'.
       (\<forall>w. w0 \<le> w \<longrightarrow> stuck_at ev' expr' no' prec' options' w) \<longrightarrow> w0 \<le> workprec' \<longrightarrow> False",
     OF _ assms])
  fix f :: "evaluator \<Rightarrow> expr \<Rightarrow> int \<Rightarrow> int \<Rightarrow> options \<Rightarrow> int \<Rightarrow> nat \<Rightarrow> tmp_result result"
  fix ev expr no prec options workprec i res
  assume IH: "\<And>a b c d e g h y. f a b c d e g h = Some y \<Longrightarrow>
        (\<forall>w. w0 \<le> w \<longrightarrow> stuck_at a b c d e w) \<longrightarrow> w0 \<le> g \<longrightarrow> False"
    and body: "(case ev expr workprec options of None \<Rightarrow> None
        | Some (Inl e) \<Rightarrow> Some (Inl e)
        | Some (Inr res) \<Rightarrow>
            case select_part no res of Inl e \<Rightarrow> Some (Inl e)
            | Inr (v, accuracy) \<Rightarrow>
                if v = None \<or> py_ge accuracy prec
                then Some (Inr (v, None, accuracy, None))
                else f ev expr no prec options (workprec + max 30 (2 ^ i)) (i + 1)) = Some res"
  show "(\<forall>w. w0 \<le> w \<longrightarrow> stuck_at ev expr no prec options w) \<longrightarrow> w0 \<le> workprec \<longrightarrow> False"
  proof (intro impI)
    assume stuck: "\<forall>w. w0 \<le> w \<longrightarrow> stuck_at ev expr no prec options w"
      and le: "w0 \<le> workprec"
    from stuck le have "stuck_at ev expr no prec options workprec" by (simp only:)
    then have "ev expr workprec options = None \<or>
            (\<exists>r v a. ev expr workprec options = Some (Inr r) \<and> select_part no r = Inr (Some v, a) \<and>
               \<not> py_ge a prec)" by (simp only: stuck_at_def)
    then show False
    proof
      assume "ev expr workprec options = None"
      with body have "None = Some res" by (simp only: option.case)
      then show False by simp
    next
      assume "\<exists>r v a. ev expr workprec options = Some (Inr r) \<and> select_part no r = Inr (Some v, a) \<and>
               \<not> py_ge a prec"
      then obtain r v a where r: "ev expr workprec options = Some (Inr r)"
        "select_part no r = Inr (Some v, a)" "\<not> py_ge a prec" by blast
      from body have "(case select_part no r of Inl e \<Rightarrow> Some (Inl e)
            | Inr (v, accuracy) \<Rightarrow>
                if v = None \<or> py_ge accuracy prec
                then Some (Inr (v, None, accuracy, None))
                else f ev expr no prec options (workprec + max 30 (2 ^ i)) (i + 1)) = Some res"
        by (simp only: r(1) option.case sum.case)
      then have "(if Some v = None \<or> py_ge a prec
                then Some (Inr (Some v, None, a, None))
                else f ev expr no prec options (workprec + max 30 (2 ^ i)) (i + 1)) = Some res"
        by (simp only: r(2) sum.case prod.case)
      then have "f ev expr no prec options (workprec + max 30 (2 ^ i)) (i + 1) = Some res"
        using r(3) by (simp only: option.distinct simp_thms if_False)
      from IH[OF this] stuck have step: "w0 \<le> workprec + max 30 (2 ^ i) \<longrightarrow> False"
        by (rule mp)
      have "w0 \<le> workprec + max 30 (2 ^ i)"
        using le by (simp add: max_def)
      with step show False by (rule mp)
    qed
  qed
qed

lemma get_complex_part_loop_stuck:
  assumes "\<And>w. w0 \<le> w \<Longrightarrow> stuck_at ev expr no prec options w"
    and "w0 \<le> workprec"
  shows "get_complex_part_loop ev expr no prec options workprec i = None"
proof (cases "get_complex_part_loop ev expr no prec options workprec i")
  case None
  then show ?thesis .
next
  case (Some y)
  have "\<forall>w. w0 \<le> w \<longrightarrow> stuck_at ev expr no prec options w"
    using assms(1) by (intro allI impI)
  with get_complex_part_loop_stuck_aux[OF Some, of w0]
  have "w0 \<le> workprec \<longrightarrow> False" by (rule mp)
  with assms(2) show ?thesis by (simp only: simp_thms)
qed

lemma bitcount_5: "bitcount 5 = 3"
  unfolding bitcount_def by code_simp

lemma from_int_5: "3 \<le> p \<Longrightarrow> from_int 5 p = (0, 5, 0, 3)"
  by (simp add: from_int_def normalize_mpf_def bitcount_5 Let_def)

lemma from_int_minus_5: "3 \<le> p \<Longrightarrow> from_int (- 5) p = (1, 5, 0, 3)"
  by (simp add: from_int_def normalize_mpf_def bitcount_5 Let_def)

lemma evalf_post_plain: "\<not> chop options \<Longrightarrow> \<not> strict options \<Longrightarrow> evalf_post r prec options = Inr r"
  by (simp add: evalf_post_def)

lemma evalf_Integer:
  "\<not> chop options \<Longrightarrow> \<not> strict options \<Longrightarrow>
     evalf B (Suc n) (C_Integer q) p options = ok (Some (from_int q p), None, Some p, None)"
  by (simp add: evalf_body_def evalf_post_plain ok_def lift_def)

lemma add_terms_cancel_5:
  "0 \<le> prec \<Longrightarrow>
     add_terms [(Some (0, 5, 0, 3), a), (Some (1, 5, 0, 3), a)] prec target_prec
       = (Some (0, 1, 3 - a, 1), Some (- 1))"
  using cancel_loop[of prec 0 5 0 3 a a]
  by (simp add: add_terms_def fone_def)

lemma add_terms_empty: "add_terms [] prec target_prec = (None, None)"
  by (simp add: add_terms_def add_terms_loop_def)

lemma cancel_pass:
  assumes "0 \<le> prec" and "\<not> chop options" and "\<not> strict options"
  shows "evalf_add_pass (evalf B (Suc n)) [C_Integer 5, C_Integer (- 5)] target_prec oldmaxprec
           options prec
         = ok ((Some (0, 1, - 7 - prec, 1), None, Some (- 1), None), Some (Fin (- 1)))"
proof -
  let ?o = "options\<lparr>maxprec := Some (min oldmaxprec (2 * prec))\<rparr>"
  have o: "\<not> chop ?o" "\<not> strict ?o" using assms by simp_all
  have args: "evalf_args (evalf B (Suc n)) [C_Integer 5, C_Integer (- 5)] (prec + 10) ?o
      = ok [(Some (0, 5, 0, 3), None, Some (prec + 10), None),
            (Some (1, 5, 0, 3), None, Some (prec + 10), None)]"
    using assms(1)
    by (simp add: evalf_Integer[OF o] from_int_5 from_int_minus_5 ok_def del: evalf.simps)
  have sum: "add_terms [(Some (0, 5, 0, 3), prec + 10), (Some (1, 5, 0, 3), prec + 10)] prec target_prec
      = (Some (0, 1, - 7 - prec, 1), Some (- 1))"
    using add_terms_cancel_5[OF assms(1), of "prec + 10" target_prec] by simp
  show ?thesis
    unfolding evalf_add_pass_def args
    by (simp add: ok_def sum add_terms_empty)
qed

lemma cancel_loop_result:
  assumes "\<not> chop options" and "\<not> strict options"
  shows "0 \<le> prec \<Longrightarrow>
         \<exists>k. evalf_add_loop (evalf B (Suc n)) [C_Integer 5, C_Integer (- 5)] target_prec oldmaxprec
               options prec i
             = ok (Some (0, 1, k, 1), None, Some (- 1), None)"
proof (induction "nat (oldmaxprec + 1 - (prec - target_prec))" arbitrary: prec i rule: less_induct)
  case less
  note pass = cancel_pass[OF less.prems assms, of B n target_prec oldmaxprec]
  show ?case
  proof (cases "target_prec \<le> - 1 \<or> prec - target_prec > min oldmaxprec (2 * prec)")
    case True
    then have "evalf_add_loop (evalf B (Suc n)) [C_Integer 5, C_Integer (- 5)] target_prec oldmaxprec
               options prec i = ok (Some (0, 1, - 7 - prec, 1), None, Some (- 1), None)"
      by (subst evalf_add_loop.simps) (auto simp: pass ok_def)
    then show ?thesis by blast
  next
    case False
    define d where "d = max (10 + 2 ^ i) (target_prec + 1)"
    have "(1::int) \<le> 2 ^ i" by simp
    then have "(11::int) \<le> 10 + 2 ^ i" by linarith
    then have d: "11 \<le> d" unfolding d_def by (rule max.coboundedI1)
    have step: "add_step_size (Some (Fin (- 1))) target_prec i = Inr d"
      by (simp add: d_def max_def)
    have unfold: "evalf_add_loop (evalf B (Suc n)) [C_Integer 5, C_Integer (- 5)] target_prec oldmaxprec
               options prec i
        = evalf_add_loop (evalf B (Suc n)) [C_Integer 5, C_Integer (- 5)] target_prec oldmaxprec
               options (prec + d) (i + 1)"
      using False
      by (subst evalf_add_loop.simps) (simp add: pass ok_def step del: add_step_size.simps)
    have "nat (oldmaxprec + 1 - (prec + d - target_prec)) < nat (oldmaxprec + 1 - (prec - target_prec))"
      using False d by auto
    moreover have "0 \<le> prec + d" using less.prems d by simp
    ultimately obtain k where
      "evalf_add_loop (evalf B (Suc n)) [C_Integer 5, C_Integer (- 5)] target_prec oldmaxprec
               options (prec + d) (i + 1) = ok (Some (0, 1, k, 1), None, Some (- 1), None)"
      using less.hyps[of "prec + d" "i + 1"] by blast
    with unfold show ?thesis by auto
  qed
qed

lemma sum_cancels:
  assumes "0 \<le> w" and "\<not> chop options" and "\<not> strict options"
  shows "\<exists>k. evalf B (Suc (Suc n)) (C_Add [C_Integer 5, C_Integer (- 5)]) w options
           = ok (Some (0, 1, k, 1), None, Some (- 1), None)"
proof -
  obtain k where "evalf_add_loop (evalf B (Suc n)) [C_Integer 5, C_Integer (- 5)] w (get_maxprec options)
               options w 0 = ok (Some (0, 1, k, 1), None, Some (- 1), None)"
    using cancel_loop_result[OF assms(2,3) assms(1)] by blast
  then have "evalf B (Suc (Suc n)) (C_Add [C_Integer 5, C_Integer (- 5)]) w options
           = ok (Some (0, 1, k, 1), None, Some (- 1), None)"
    using assms(2,3) by (simp add: evalf_body_def evalf_add_def ok_def lift_def evalf_post_plain)
  then show ?thesis by blast
qed

lemma evalf_add_no_fuel:
  "evalf_add (evalf B 0) (a # args) prec options = None"
  unfolding evalf_add_def
  by (subst evalf_add_loop.simps) (simp add: evalf_add_pass_def)

lemma sum_stuck:
  assumes "0 \<le> prec" and "\<not> chop options" and "\<not> strict options" and "prec \<le> w"
  shows "stuck_at (evalf B m) (C_Add [C_Integer 5, C_Integer (- 5)]) 0 prec options w"
proof (cases m)
  case 0
  then show ?thesis by (simp add: stuck_at_def)
next
  case (Suc m')
  show ?thesis
  proof (cases m')
    case 0
    with Suc show ?thesis
      by (simp add: stuck_at_def evalf_body_def evalf_add_no_fuel)
  next
    case (Suc n)
    from assms have "0 \<le> w" by simp
    from sum_cancels[OF this assms(2,3), of B n] obtain k where
      "evalf B (Suc (Suc n)) (C_Add [C_Integer 5, C_Integer (- 5)]) w options
           = ok (Some (0, 1, k, 1), None, Some (- 1), None)" by blast
    with \<open>m = Suc m'\<close> Suc assms(1) show ?thesis
      by (simp add: stuck_at_def ok_def del: evalf.simps)
  qed
qed

lemma re_of_cancelling_sum_diverges:
  assumes "0 \<le> prec" and "\<not> chop options" and "\<not> strict options"
  shows "evalf B fuel (C_re (C_Add [C_Integer 5, C_Integer (- 5)])) prec options = None"
proof (cases fuel)
  case 0
  then show ?thesis by simp
next
  case (Suc m)
  have "get_complex_part_loop (evalf B m) (C_Add [C_Integer 5, C_Integer (- 5)]) 0 prec options prec 0
      = None"
    by (rule get_complex_part_loop_stuck[where ?w0.0 = prec]) (simp_all add: sum_stuck[OF assms])
  with Suc show ?thesis
    by (simp add: evalf_body_def evalf_re_def get_complex_part_def)
qed


lemma evalf_add_pass_returns:
  assumes "\<And>p opts. evalf_args ev args p opts \<noteq> None"
  shows "evalf_add_pass ev args target_prec oldmaxprec options prec \<noteq> None"
proof -
  obtain z where "evalf_args ev args (prec + 10) (options\<lparr>maxprec := Some (min oldmaxprec (2 * prec))\<rparr>)
      = Some z"
    using assms by blast
  then show ?thesis
    by (cases z)
       (auto simp: evalf_add_pass_def ok_def raise_def split: sum.splits prod.splits)
qed

lemma eint_max_Fin_ge: "eint_max (Fin a) x = Fin d \<Longrightarrow> a \<le> d"
  by (cases x) (auto split: if_splits)

lemma add_step_size_ge:
  assumes "add_step_size accuracy target_prec i = Inr d"
  shows "11 \<le> d"
proof -
  have two: "(1::int) \<le> 2 ^ i" by simp
  from assms obtain a where a: "accuracy = Some a" by (cases accuracy) auto
  with assms have "eint_max (Fin (10 + 2 ^ i)) (eint_sub (Fin target_prec) a) = Fin d"
    by (simp split: eint.splits del: eint_max.simps)
  from eint_max_Fin_ge[OF this] two show ?thesis by linarith
qed

lemma evalf_add_loop_returns:
  assumes "\<And>p opts. evalf_args ev args p opts \<noteq> None"
  shows "evalf_add_loop ev args target_prec oldmaxprec options prec i \<noteq> None"
proof (induction "nat (oldmaxprec + 1 - (prec - target_prec))" arbitrary: prec i rule: less_induct)
  case less
  obtain z where z: "evalf_add_pass ev args target_prec oldmaxprec options prec = Some z"
    using evalf_add_pass_returns[OF assms, of target_prec oldmaxprec options prec] by blast
  show ?case
  proof (cases z)
    case (Inl e)
    with z show ?thesis by (subst evalf_add_loop.simps) simp
  next
    case (Inr ra)
    obtain r accuracy where ra: "ra = (r, accuracy)" by (cases ra)
    show ?thesis
    proof (cases "eint_ge_int accuracy target_prec \<or> prec - target_prec > min oldmaxprec (2 * prec)")
      case True
      with z Inr ra show ?thesis by (subst evalf_add_loop.simps) auto
    next
      case False
      show ?thesis
      proof (cases "add_step_size accuracy target_prec i")
        case (Inl e)
        with z \<open>z = Inr ra\<close> ra False show ?thesis by (subst evalf_add_loop.simps) simp
      next
        case (Inr d)
        from add_step_size_ge[OF this] have d: "11 \<le> d" .
        with False have "nat (oldmaxprec + 1 - (prec + d - target_prec))
            < nat (oldmaxprec + 1 - (prec - target_prec))" by auto
        from less.hyps[OF this]
        have "evalf_add_loop ev args target_prec oldmaxprec options (prec + d) (i + 1) \<noteq> None" .
        with z \<open>z = Inr ra\<close> ra False Inr show ?thesis
          by (subst evalf_add_loop.simps) simp
      qed
    qed
  qed
qed

lemma sample_sum_53:
  "evalf sample_backend 2 (C_Add [C_Integer 5, C_Integer (- 5)]) 53 default_options
     = ok (Some (0, 1, - 458, 1), None, Some (- 1), None)"
  by code_simp


text \<open>
  C6, at the real part of the sum of 5 and -5, left unevaluated, with the default options
  at 53 bits: the sum is a scaled zero of accuracy \<open>-1\<close> at every working precision, and the
  loop of \<open>get_complex_part\<close>, which has no test of \<open>maxprec\<close>, raises the working
  precision without end, so that \<open>evalf\<close> returns for no amount of fuel. The loop of
  \<open>evalf_add\<close>, for its part, returns whenever the evaluation of its terms does
  (\<open>evalf_add_loop_returns\<close>).
\<close>

theorem get_complex_part_unbounded:
  "(\<forall>fuel. evalf sample_backend fuel (C_re (C_Add [C_Integer 5, C_Integer (- 5)])) 53
             default_options = None) \<and>
   evalf sample_backend 2 (C_Add [C_Integer 5, C_Integer (- 5)]) 53 default_options
     = ok (Some (0, 1, - 458, 1), None, Some (- 1), None)"
  using re_of_cancelling_sum_diverges[of 53 default_options sample_backend] sample_sum_53
  by (simp add: default_options_def)



section \<open>Properties of the floor and ceiling evaluator\<close>

text \<open>
  The check of one part raises \<open>PrecisionExhausted\<close> exactly when the value it is given is
  present with an accuracy below 3 bits.
\<close>

lemma certify_part_raises:
  "certify_part x x_acc nint no = Inl PrecisionExhausted \<longleftrightarrow>
     x \<noteq> None \<and> (case x_acc of None \<Rightarrow> True | Some a \<Rightarrow> a < 3)"
  by (cases x; cases x_acc) (auto simp: certify_part_def)

lemma floor_3i:
  "evalf sample_backend 5 (C_floor (C_Mul [C_Integer 3, C_ImaginaryUnit])) 53 default_options
     = ok (None, Some (0, 1, 1, 1), None, Some 20)"
  by code_simp

lemma floor_3i_residual:
  "evalf sample_backend 4
     (C_Add [C_im (C_Mul [C_Integer 3, C_ImaginaryUnit]), int_times_I (- 3)]) 10 default_options
     = ok (Some (0, 3, 0, 2), Some (1, 3, 0, 2), Some 20, Some 20)"
  by code_simp

lemma floor_noise_real:
  "evalf sample_backend 7
     (C_floor (C_Add [C_Integer 3, C_Add [C_Integer 5, C_Integer (- 5)]])) 53 default_options
     = raise PrecisionExhausted"
  by code_simp

lemma floor_noise_imaginary:
  "evalf sample_backend 7
     (C_floor (C_Mul [C_Add [C_Integer 3, C_Add [C_Integer 5, C_Integer (- 5)]], C_ImaginaryUnit]))
     53 default_options
     = ok (None, Some (0, 1, 1, 1), None, Some 20)"
  by code_simp


text \<open>
  C4, at the floor of \<open>3i\<close>: for the imaginary part the source evaluates
  \<open>im(expr) - nint_im*I\<close> and reads the imaginary part of the result, which is \<open>-nint_im\<close>
  itself, exact, whatever \<open>expr\<close> is. The check at 3 bits always passes and the candidate 3
  is lowered to 2. With the sum of 5 and -5 added to 3, the floor of the real number
  raises \<open>PrecisionExhausted\<close>, as its residual cannot be told from zero, and the floor of
  the same number times \<open>i\<close> returns \<open>2i\<close>.
\<close>

theorem get_integer_part_imaginary_residual:
  "evalf sample_backend 5 (C_floor (C_Mul [C_Integer 3, C_ImaginaryUnit])) 53 default_options
     = ok (None, Some (from_int_exact 2), None, Some 20) \<and>
   evalf sample_backend 4
     (C_Add [C_im (C_Mul [C_Integer 3, C_ImaginaryUnit]), int_times_I (- 3)]) 10 default_options
     = ok (Some (from_int_exact 3), Some (from_int_exact (- 3)), Some 20, Some 20) \<and>
   evalf sample_backend 7
     (C_floor (C_Add [C_Integer 3, C_Add [C_Integer 5, C_Integer (- 5)]])) 53 default_options
     = raise PrecisionExhausted \<and>
   evalf sample_backend 7
     (C_floor (C_Mul [C_Add [C_Integer 3, C_Add [C_Integer 5, C_Integer (- 5)]], C_ImaginaryUnit]))
     53 default_options
     = ok (None, Some (from_int_exact 2), None, Some 20)"
proof -
  have "from_int_exact 2 = (0, 1, 1, 1)" "from_int_exact 3 = (0, 3, 0, 2)"
    "from_int_exact (- 3) = (1, 3, 0, 2)"
    by code_simp+
  then show ?thesis
    using floor_3i floor_3i_residual floor_noise_real floor_noise_imaginary by simp
qed


section \<open>Properties of the exact leaves\<close>










end
